theory Spec2Isabelle
  imports Complex_Main "HOL-Library.Word"
begin

section \<open>JavaScript strings and numbers\<close>

text \<open>
  A JavaScript string is a sequence of UTF-16 code units; \<open>length\<close>, \<open>substring\<close>,
  \<open>trim\<close> and a regular expression without the \<open>u\<close> flag all work on code units.
  \<open>js\<close> turns an Isabelle string literal into such a sequence.
\<close>

type_synonym code_unit = "16 word"
type_synonym jsstring = "code_unit list"

definition js :: "string \<Rightarrow> jsstring" where
  "js s = map of_char s"

definition LT_SIGN :: code_unit where "LT_SIGN = 0x3C"
definition GT_SIGN :: code_unit where "GT_SIGN = 0x3E"
definition DOT :: code_unit where "DOT = 0x2E"

text \<open>
  The code units that \<open>String.prototype.trim\<close> and \<open>parseInt\<close> skip: the ECMAScript
  WhiteSpace and LineTerminator productions.
\<close>

definition is_white_space :: "code_unit \<Rightarrow> bool" where
  "is_white_space c \<longleftrightarrow>
     c \<in> {0x09, 0x0A, 0x0B, 0x0C, 0x0D, 0x20, 0xA0, 0x1680, 0x2028, 0x2029, 0x202F, 0x205F,
          0x3000, 0xFEFF} \<or> (0x2000 \<le> c \<and> c \<le> 0x200A)"

definition trim :: "jsstring \<Rightarrow> jsstring" where
  "trim s = rev (dropWhile is_white_space (rev (dropWhile is_white_space s)))"

text \<open>
  A value is falsy when it is \<open>undefined\<close>, \<open>null\<close>, the empty string or the number 0;
  \<open>a || b\<close> is \<open>a\<close> when \<open>a\<close> is truthy and \<open>b\<close> otherwise. An absent value
  (\<open>undefined\<close> or \<open>null\<close>) is \<open>None\<close>.
\<close>

definition truthy_string :: "jsstring option \<Rightarrow> bool" where
  "truthy_string v = (case v of None \<Rightarrow> False | Some s \<Rightarrow> s \<noteq> [])"

definition or_string :: "jsstring option \<Rightarrow> jsstring option \<Rightarrow> jsstring option" where
  "or_string a b = (if truthy_string a then a else b)"

definition or_default :: "jsstring option \<Rightarrow> jsstring \<Rightarrow> jsstring" where
  "or_default a d = (case a of None \<Rightarrow> d | Some s \<Rightarrow> if s \<noteq> [] then s else d)"

definition or_number :: "int option \<Rightarrow> int \<Rightarrow> int" where
  "or_number a d = (case a of None \<Rightarrow> d | Some n \<Rightarrow> if n \<noteq> 0 then n else d)"

text \<open>\<open>Number.prototype.toString\<close> on an integer: decimal digits, a minus sign below zero.\<close>

definition digit_char :: "nat \<Rightarrow> code_unit" where
  "digit_char d = of_nat (48 + d)"

function digits_of :: "nat \<Rightarrow> jsstring" where
  "digits_of n = (if n < 10 then [digit_char n] else digits_of (n div 10) @ [digit_char (n mod 10)])"
  by pat_completeness auto
termination
  by (relation "measure id") auto

definition toString :: "int \<Rightarrow> jsstring" where
  "toString n = (if n < 0 then js ''-'' @ digits_of (nat (- n)) else digits_of (nat n))"

text \<open>
  \<open>parseInt\<close> with no radix: leading white space is skipped, a sign is read, a
  \<open>0x\<close> prefix selects base 16, the longest run of digits is the value, and no digit at
  all gives \<open>NaN\<close>. Values are exact integers (a double is exact up to \<open>2^53\<close>).
\<close>

datatype number = NaN | Num int

definition is_digit :: "code_unit \<Rightarrow> bool" where
  "is_digit c \<longleftrightarrow> 0x30 \<le> c \<and> c \<le> 0x39"

definition is_hex_digit :: "code_unit \<Rightarrow> bool" where
  "is_hex_digit c \<longleftrightarrow> is_digit c \<or> (0x41 \<le> c \<and> c \<le> 0x46) \<or> (0x61 \<le> c \<and> c \<le> 0x66)"

definition digit_value :: "code_unit \<Rightarrow> int" where
  "digit_value c = (if is_digit c then uint c - 48
                    else if 0x41 \<le> c \<and> c \<le> 0x46 then uint c - 55 else uint c - 87)"

definition digits_value :: "int \<Rightarrow> jsstring \<Rightarrow> int" where
  "digits_value radix ds = foldl (\<lambda>acc d. acc * radix + digit_value d) 0 ds"

definition parseInt :: "jsstring \<Rightarrow> number" where
  "parseInt s =
     (let t = dropWhile is_white_space s;
          sign = (if take 1 t = js ''-'' then - 1 else 1);
          r = (if take 1 t = js ''-'' \<or> take 1 t = js ''+'' then drop 1 t else t)
      in if take 2 r = js ''0x'' \<or> take 2 r = js ''0X''
         then (let hs = takeWhile is_hex_digit (drop 2 r)
               in if hs = [] then NaN else Num (sign * digits_value 16 hs))
         else (let ds = takeWhile is_digit r
               in if ds = [] then NaN else Num (sign * digits_value 10 ds)))"

section \<open>Excerpts (wpUtils.createExcerpt)\<close>

text \<open>
  \<open>content.replace(/<[^>]*>/g, '')\<close>: scanning from the left, a \<open><\<close> that has a
  \<open>>\<close> somewhere after it is removed together with everything up to the first such
  \<open>>\<close>; a \<open><\<close> with no \<open>>\<close> after it stays.
\<close>

function strip_tags :: "jsstring \<Rightarrow> jsstring" where
  "strip_tags [] = []"
| "strip_tags (c # cs) =
     (if c = LT_SIGN then
        (case dropWhile (\<lambda>d. d \<noteq> GT_SIGN) cs of
           [] \<Rightarrow> c # strip_tags cs
         | _ # rest \<Rightarrow> strip_tags rest)
      else c # strip_tags cs)"
  by pat_completeness auto
termination
proof (relation "measure length")
  show "wf (measure length)" by simp
next
  fix c :: code_unit and cs g rest
  assume "dropWhile (\<lambda>d. d \<noteq> GT_SIGN) cs = g # rest"
  then have "length (g # rest) \<le> length cs"
    using length_dropWhile_le [of "\<lambda>d. d \<noteq> GT_SIGN" cs] by simp
  then show "(rest, c # cs) \<in> measure length" by simp
qed simp_all

text \<open>
  \<open>substring(0, length)\<close> clamps a negative length to 0, which \<open>nat\<close> does as well.
\<close>

definition createExcerpt :: "jsstring \<Rightarrow> int \<Rightarrow> jsstring" where
  "createExcerpt content len =
     (let cleanText = strip_tags content
      in if int (length cleanText) > len
         then trim (take (nat len) cleanText) @ js ''...''
         else cleanText)"

text \<open>A text in which no \<open><\<close> is followed by a \<open>>\<close>: the regular expression finds nothing.\<close>

fun no_tag :: "jsstring \<Rightarrow> bool" where
  "no_tag [] = True"
| "no_tag (c # cs) = ((c \<noteq> LT_SIGN \<or> GT_SIGN \<notin> set cs) \<and> no_tag cs)"

section \<open>Thrown values, responses and the network\<close>

text \<open>
  What the platform (\<open>fetch\<close>, \<open>response.json()\<close>, \<open>atob\<close>, a property read on
  \<open>undefined\<close>) or a \<open>throw new Error(...)\<close> of the code can raise: an \<open>Error\<close>
  object of some class with its message, or a value that is not an \<open>Error\<close>.
  \<open>AbortErr\<close> is an error whose \<open>name\<close> is \<open>AbortError\<close>. The authentication
  client also throws its own \<open>AuthAPIError\<close>, with a message, a code and a status.
\<close>

datatype err_class = PlainError | TypeErr | SyntaxErr | AbortErr

datatype raised = JSError err_class jsstring | NonError

datatype thrown = Raised raised | AuthAPIError jsstring jsstring int

fun is_Error :: "raised \<Rightarrow> bool" where
  "is_Error (JSError _ _) = True"
| "is_Error NonError = False"

fun message_of :: "raised \<Rightarrow> jsstring" where
  "message_of (JSError _ m) = m"
| "message_of NonError = []"


fun is_AuthAPIError :: "thrown \<Rightarrow> bool" where
  "is_AuthAPIError (AuthAPIError _ _ _) = True"
| "is_AuthAPIError (Raised _) = False"

fun is_TypeError :: "thrown \<Rightarrow> bool" where
  "is_TypeError (Raised (JSError TypeErr _)) = True"
| "is_TypeError _ = False"

fun thrown_message :: "thrown \<Rightarrow> jsstring" where
  "thrown_message (AuthAPIError m _ _) = m"
| "thrown_message (Raised e) = message_of e"

text \<open>
  A \<open>Response\<close>: its status line, its headers as \<open>headers.get\<close> sees them, and what
  \<open>response.json()\<close> does: throw, or give the parsed body, typed as the caller's \<open>T\<close>.
  \<open>fetch\<close> either rejects or resolves with a response.
\<close>

record 'b response =
  status :: nat
  statusText :: jsstring
  headers_get :: "jsstring \<Rightarrow> jsstring option"
  json :: "raised + 'b"

definition ok :: "'b response \<Rightarrow> bool" where
  "ok r \<longleftrightarrow> 200 \<le> status r \<and> status r \<le> 299"

datatype 'b fetch_result = Rejected raised | Resolved "'b response"

section \<open>The content gateway (lib/wordpress-api.ts)\<close>

record 'b APIResponse =
  data :: "'b option"
  error :: "jsstring option"
  resp_totalPages :: "number option"
  resp_total :: "number option"

text \<open>
  The body of the \<open>try\<close> block of \<open>apiRequest\<close>; \<open>Inl\<close> is a value thrown inside it.
  Every caller in the module passes no options, so the request is its URL.
\<close>

definition apiRequest_try ::
  "jsstring \<Rightarrow> (jsstring \<Rightarrow> 'b fetch_result) \<Rightarrow> jsstring \<Rightarrow> raised + 'b APIResponse" where
  "apiRequest_try WORDPRESS_API_URL fetch endpoint =
     (case fetch (WORDPRESS_API_URL @ endpoint) of
        Rejected e \<Rightarrow> Inl e
      | Resolved response \<Rightarrow>
          if \<not> ok response
          then Inl (JSError PlainError
                 (js ''WordPress API Error: '' @ toString (int (status response)) @ js '' ''
                    @ statusText response))
          else (case json response of
                  Inl e \<Rightarrow> Inl e
                | Inr d \<Rightarrow>
                    Inr \<lparr>data = Some d, error = None,
                         resp_totalPages = Some (parseInt
                           (or_default (headers_get response (js ''X-WP-TotalPages'')) (js ''1''))),
                         resp_total = Some (parseInt
                           (or_default (headers_get response (js ''X-WP-Total'')) (js ''0'')))\<rparr>))"

text \<open>\<open>apiRequest\<close> with its \<open>catch\<close> clause: whatever was thrown becomes an error result.\<close>

definition apiRequest ::
  "jsstring \<Rightarrow> (jsstring \<Rightarrow> 'b fetch_result) \<Rightarrow> jsstring \<Rightarrow> 'b APIResponse" where
  "apiRequest WORDPRESS_API_URL fetch endpoint =
     (case apiRequest_try WORDPRESS_API_URL fetch endpoint of
        Inr r \<Rightarrow> r
      | Inl e \<Rightarrow>
          \<lparr>data = None,
           error = Some (if is_Error e then message_of e else js ''Unknown API error''),
           resp_totalPages = None, resp_total = None\<rparr>)"

subsection \<open>Query strings\<close>

text \<open>
  \<open>URLSearchParams\<close>: \<open>set\<close> replaces the value of the first pair with that name and
  drops later ones, or appends a new pair; \<open>toString\<close> joins \<open>name=value\<close> pairs with
  \<open>&\<close>, each name and value passed through the platform's form-urlencoding, which is a
  parameter here.
\<close>

fun params_set :: "jsstring \<Rightarrow> jsstring \<Rightarrow> (jsstring \<times> jsstring) list \<Rightarrow> (jsstring \<times> jsstring) list" where
  "params_set k v [] = [(k, v)]"
| "params_set k v ((k', v') # ps) =
     (if k' = k then (k, v) # filter (\<lambda>p. fst p \<noteq> k) ps else (k', v') # params_set k v ps)"

fun join :: "jsstring \<Rightarrow> jsstring list \<Rightarrow> jsstring" where
  "join sep [] = []"
| "join sep [x] = x"
| "join sep (x # y # ys) = x @ sep @ join sep (y # ys)"

definition params_toString :: "(jsstring \<Rightarrow> jsstring) \<Rightarrow> (jsstring \<times> jsstring) list \<Rightarrow> jsstring" where
  "params_toString urlencode ps =
     join (js ''&'') (map (\<lambda>(k, v). urlencode k @ js ''='' @ urlencode v) ps)"

record posts_params =
  page :: "int option"
  per_page :: "int option"
  categories :: "int list option"
  tags :: "int list option"
  author :: "int option"
  search :: "jsstring option"
  orderby :: "jsstring option"
  order :: "jsstring option"
  post_status :: "jsstring option"

definition no_params :: posts_params where
  "no_params = \<lparr>page = None, per_page = None, categories = None, tags = None, author = None,
                search = None, orderby = None, order = None, post_status = None\<rparr>"

definition nonempty_ids :: "int list option \<Rightarrow> bool" where
  "nonempty_ids v = (case v of None \<Rightarrow> False | Some ids \<Rightarrow> ids \<noteq> [])"

definition ids_of :: "int list option \<Rightarrow> int list" where
  "ids_of v = (case v of None \<Rightarrow> [] | Some ids \<Rightarrow> ids)"

definition posts_searchParams :: "posts_params \<Rightarrow> (jsstring \<times> jsstring) list" where
  "posts_searchParams params =
     (let sp0 = params_set (js ''_embed'') (js ''true'') [];
          sp1 = params_set (js ''per_page'') (toString (or_number (per_page params) 10)) sp0;
          sp2 = params_set (js ''page'') (toString (or_number (page params) 1)) sp1;
          sp3 = params_set (js ''orderby'') (or_default (orderby params) (js ''date'')) sp2;
          sp4 = params_set (js ''order'') (or_default (order params) (js ''desc'')) sp3;
          sp5 = params_set (js ''status'') (or_default (post_status params) (js ''publish'')) sp4;
          sp6 = (if nonempty_ids (categories params)
                 then params_set (js ''categories'')
                        (join (js '','') (map toString (ids_of (categories params)))) sp5
                 else sp5);
          sp7 = (if nonempty_ids (tags params)
                 then params_set (js ''tags'')
                        (join (js '','') (map toString (ids_of (tags params)))) sp6
                 else sp6);
          sp8 = (if or_number (author params) 0 \<noteq> 0
                 then params_set (js ''author'') (toString (or_number (author params) 0)) sp7
                 else sp7);
          sp9 = (if truthy_string (search params)
                 then params_set (js ''search'') (or_default (search params) []) sp8
                 else sp8)
      in sp9)"

definition posts_endpoint :: "(jsstring \<Rightarrow> jsstring) \<Rightarrow> posts_params \<Rightarrow> jsstring" where
  "posts_endpoint urlencode params =
     js ''/posts?'' @ params_toString urlencode (posts_searchParams params)"


text \<open>The slug is put into the query as it is, with no encoding.\<close>

definition slug_endpoint :: "jsstring \<Rightarrow> jsstring" where
  "slug_endpoint s = js ''/posts?slug='' @ s @ js ''&_embed=true''"

definition getPostBySlug ::
  "jsstring \<Rightarrow> (jsstring \<Rightarrow> 'p list fetch_result) \<Rightarrow> jsstring \<Rightarrow> 'p APIResponse" where
  "getPostBySlug WORDPRESS_API_URL fetch s =
     (let response = apiRequest WORDPRESS_API_URL fetch (slug_endpoint s)
      in case data response of
           Some (p # _) \<Rightarrow> \<lparr>data = Some p, error = None, resp_totalPages = None, resp_total = None\<rparr>
         | _ \<Rightarrow> \<lparr>data = None, error = Some (js ''Post not found''),
                 resp_totalPages = None, resp_total = None\<rparr>)"

section \<open>WordPress objects and the transformation layer (lib/transforms.ts)\<close>

text \<open>
  The fields of the WordPress REST objects that the code reads. \<open>links_featuredmedia\<close>
  says whether \<open>post._links?.['wp:featuredmedia']?.[0]\<close> is there; an absent
  \<open>_embedded\<close> object or an absent entry of it is \<open>None\<close>.
\<close>

record WordPressMedia =
  source_url :: jsstring
  alt_text :: jsstring

record WordPressAuthor =
  author_id :: int
  author_name :: jsstring
  author_slug :: jsstring
  avatar_urls :: "(jsstring \<Rightarrow> jsstring option) option"

record WordPressTerm =
  term_id :: int
  term_name :: jsstring
  term_slug :: jsstring
  taxonomy :: jsstring

record Embedded =
  embedded_author :: "WordPressAuthor list option"
  embedded_featuredmedia :: "WordPressMedia list option"
  embedded_term :: "WordPressTerm list list option"

record WordPressPost =
  post_id :: int
  post_date :: jsstring
  post_slug :: jsstring
  title_rendered :: jsstring
  content_rendered :: jsstring
  excerpt_rendered :: jsstring
  sticky :: bool
  links_featuredmedia :: bool
  embedded :: "Embedded option"

record FeaturedImage =
  image_url :: jsstring
  image_alt :: jsstring

record TermRef =
  ref_name :: jsstring
  ref_slug :: jsstring
  ref_id :: int

record AuthorRef =
  aref_name :: jsstring
  aref_slug :: jsstring
  aref_id :: int
  aref_avatar :: "jsstring option"

record Article =
  article_id :: int
  title :: jsstring
  excerpt :: jsstring
  content :: jsstring
  slug :: jsstring
  date :: jsstring
  featuredImage :: "FeaturedImage option"
  category :: "TermRef option"
  article_author :: "AuthorRef option"
  article_tags :: "TermRef list"
  isSticky :: bool

text \<open>\<open>xs?.[i]\<close> on an optional array: absent when the array or the element is.\<close>

definition opt_nth :: "'a list option \<Rightarrow> nat \<Rightarrow> 'a option" where
  "opt_nth xs i = (case xs of None \<Rightarrow> None | Some ys \<Rightarrow> if i < length ys then Some (ys ! i) else None)"

definition getFeaturedImage :: "WordPressPost \<Rightarrow> FeaturedImage option" where
  "getFeaturedImage post =
     (if links_featuredmedia post then
        (case embedded post of
           None \<Rightarrow> None
         | Some emb \<Rightarrow>
             (case opt_nth (embedded_featuredmedia emb) 0 of
                None \<Rightarrow> None
              | Some media \<Rightarrow>
                  Some \<lparr>image_url = source_url media,
                        image_alt = or_default (Some (alt_text media)) (title_rendered post)\<rparr>))
      else None)"

definition getAuthor :: "WordPressPost \<Rightarrow> WordPressAuthor option" where
  "getAuthor post =
     (case embedded post of None \<Rightarrow> None | Some emb \<Rightarrow> opt_nth (embedded_author emb) 0)"

definition getCategories :: "WordPressPost \<Rightarrow> WordPressTerm list" where
  "getCategories post =
     (case embedded post of
        None \<Rightarrow> []
      | Some emb \<Rightarrow>
          (case opt_nth (embedded_term emb) 0 of
             None \<Rightarrow> []
           | Some terms \<Rightarrow> filter (\<lambda>term. taxonomy term = js ''category'') terms))"

definition getTags :: "WordPressPost \<Rightarrow> WordPressTerm list" where
  "getTags post =
     (case embedded post of
        None \<Rightarrow> []
      | Some emb \<Rightarrow>
          (case opt_nth (embedded_term emb) 1 of
             None \<Rightarrow> []
           | Some terms \<Rightarrow> filter (\<lambda>term. taxonomy term = js ''post_tag'') terms))"

definition term_ref :: "WordPressTerm \<Rightarrow> TermRef" where
  "term_ref t = \<lparr>ref_name = term_name t, ref_slug = term_slug t, ref_id = term_id t\<rparr>"

definition avatar_of :: "WordPressAuthor \<Rightarrow> jsstring option" where
  "avatar_of a =
     (case avatar_urls a of
        None \<Rightarrow> None
      | Some urls \<Rightarrow> or_string (urls (js ''96'')) (urls (js ''48'')))"

definition transformPost :: "WordPressPost \<Rightarrow> Article" where
  "transformPost post =
     (let featured = getFeaturedImage post;
          writer = getAuthor post;
          cats = getCategories post;
          tgs = getTags post
      in \<lparr>article_id = post_id post,
          title = title_rendered post,
          excerpt = createExcerpt (excerpt_rendered post) 160,
          content = content_rendered post,
          slug = post_slug post,
          date = post_date post,
          featuredImage = featured,
          category = (case cats of [] \<Rightarrow> None | c # _ \<Rightarrow> Some (term_ref c)),
          article_author =
            (case writer of
               None \<Rightarrow> None
             | Some a \<Rightarrow> Some \<lparr>aref_name = author_name a, aref_slug = author_slug a,
                               aref_id = author_id a, aref_avatar = avatar_of a\<rparr>),
          article_tags = map term_ref tgs,
          isSticky = sticky post\<rparr>)"

section \<open>The server-side gateway (lib/server-api.ts)\<close>


record listing =
  posts :: "Article list"
  listing_totalPages :: number
  listing_total :: number

text \<open>The body of the \<open>try\<close> block of \<open>serverPostsAPI.getPosts\<close>, which calls \<open>fetch\<close> itself.\<close>

definition server_getPosts_try ::
  "jsstring \<Rightarrow> (jsstring \<Rightarrow> jsstring) \<Rightarrow> (jsstring \<Rightarrow> WordPressPost list fetch_result)
     \<Rightarrow> posts_params \<Rightarrow> raised + listing" where
  "server_getPosts_try WORDPRESS_API_URL urlencode fetch params =
     (case fetch (WORDPRESS_API_URL @ posts_endpoint urlencode params) of
        Rejected e \<Rightarrow> Inl e
      | Resolved response \<Rightarrow>
          if \<not> ok response
          then Inl (JSError PlainError (js ''Failed to fetch posts: '' @ statusText response))
          else (case json response of
                  Inl e \<Rightarrow> Inl e
                | Inr ps \<Rightarrow>
                    Inr \<lparr>posts = map transformPost ps,
                         listing_totalPages = parseInt
                           (or_default (headers_get response (js ''X-WP-TotalPages'')) (js ''1'')),
                         listing_total = parseInt
                           (or_default (headers_get response (js ''X-WP-Total'')) (js ''0''))\<rparr>))"

definition server_getPosts ::
  "jsstring \<Rightarrow> (jsstring \<Rightarrow> jsstring) \<Rightarrow> (jsstring \<Rightarrow> WordPressPost list fetch_result)
     \<Rightarrow> posts_params \<Rightarrow> listing" where
  "server_getPosts WORDPRESS_API_URL urlencode fetch params =
     (case server_getPosts_try WORDPRESS_API_URL urlencode fetch params of
        Inr r \<Rightarrow> r
      | Inl e \<Rightarrow> \<lparr>posts = [], listing_totalPages = Num 1, listing_total = Num 0\<rparr>)"



section \<open>The authentication client (lib/auth-api.ts)\<close>

record User =
  user_id :: "int option"
  username :: "jsstring option"
  email :: "jsstring option"
  firstName :: jsstring
  lastName :: jsstring
  displayName :: "jsstring option"
  roles :: "jsstring list"
  capabilities :: "jsstring \<Rightarrow> bool option"
  avatar :: jsstring
  description :: jsstring
  url :: jsstring
  registeredDate :: jsstring
  user_meta :: "(jsstring \<times> jsstring) list"

text \<open>
  The fields of a user object that \<open>transformUser\<close> reads. \<open>login\<close> and
  \<open>validateToken\<close> hand it the \<open>data\<close> object of the validation answer; in the
  answer of the JWT plugin, and of the repository's mock of it, that object holds a
  \<open>status\<close> and the user one level down, under \<open>data.user\<close>.
\<close>

record wpUser =
  wp_id :: "int option"
  wp_username :: "jsstring option"
  wp_slug :: "jsstring option"
  wp_email :: "jsstring option"
  first_name :: "jsstring option"
  last_name :: "jsstring option"
  wp_name :: "jsstring option"
  display_name :: "jsstring option"
  wp_roles :: "jsstring list option"
  wp_capabilities :: "(jsstring \<Rightarrow> bool option) option"
  wp_avatar_urls :: "(nat \<Rightarrow> jsstring option) option"
  wp_description :: "jsstring option"
  wp_url :: "jsstring option"
  registered_date :: "jsstring option"
  wp_meta :: "(jsstring \<times> jsstring) list option"

record validate_data = wpUser +
  data_status :: "int option"
  data_user :: "wpUser option"

text \<open>
  \<open>transformUser\<close>; reading a field of an absent object throws a \<open>TypeError\<close>.
  \<open>now_iso\<close> is \<open>new Date().toISOString()\<close>.
\<close>

definition transformUser :: "jsstring \<Rightarrow> 'a wpUser_scheme option \<Rightarrow> thrown + User" where
  "transformUser now_iso v =
     (case v of
        None \<Rightarrow> Inl (Raised (JSError TypeErr
                  (js ''Cannot read properties of undefined (reading id)'')))
      | Some w \<Rightarrow>
          Inr \<lparr>user_id = wp_id w,
               username = or_string (wp_username w) (wp_slug w),
               email = wp_email w,
               firstName = or_default (first_name w) [],
               lastName = or_default (last_name w) [],
               displayName = or_string (wp_name w) (display_name w),
               roles = (case wp_roles w of None \<Rightarrow> [] | Some rs \<Rightarrow> rs),
               capabilities = (case wp_capabilities w of None \<Rightarrow> (\<lambda>c. None) | Some cs \<Rightarrow> cs),
               avatar = (case wp_avatar_urls w of
                           None \<Rightarrow> []
                         | Some urls \<Rightarrow> or_default (or_string (urls 96) (urls 48)) []),
               description = or_default (wp_description w) [],
               url = or_default (wp_url w) [],
               registeredDate = or_default (registered_date w) now_iso,
               user_meta = (case wp_meta w of None \<Rightarrow> [] | Some m \<Rightarrow> m)\<rparr>)"

definition hasCapability :: "User \<Rightarrow> jsstring \<Rightarrow> bool" where
  "hasCapability u capability \<longleftrightarrow> capabilities u capability = Some True"

definition hasRole :: "User \<Rightarrow> jsstring \<Rightarrow> bool" where
  "hasRole u role \<longleftrightarrow> role \<in> set (roles u)"

text \<open>The JSON body of an answer of the JWT endpoints, and a request to them.\<close>

record auth_body =
  body_message :: "jsstring option"
  body_code :: "jsstring option"
  body_token :: "jsstring option"
  body_refresh_token :: "jsstring option"
  body_expires_in :: "int option"
  body_data :: "validate_data option"

datatype payload = NoBody | Credentials jsstring jsstring | RefreshWith jsstring

record auth_request =
  req_url :: jsstring
  req_method :: jsstring
  req_authorization :: "jsstring option"
  req_body :: payload

type_synonym auth_fetch = "auth_request \<Rightarrow> auth_body fetch_result"

text \<open>A template literal prints an absent value as \<open>undefined\<close>.\<close>

definition template :: "jsstring option \<Rightarrow> jsstring" where
  "template v = (case v of None \<Rightarrow> js ''undefined'' | Some s \<Rightarrow> s)"

text \<open>
  \<open>makeRequest\<close>: the \<open>try\<close> block, then the \<open>catch\<close> clause, which lets only an
  \<open>AuthAPIError\<close> out. Each function returns its outcome and the requests it sent.
\<close>

definition makeRequest_try :: "auth_fetch \<Rightarrow> auth_request \<Rightarrow> thrown + auth_body" where
  "makeRequest_try fetch req =
     (case fetch req of
        Rejected e \<Rightarrow> Inl (Raised e)
      | Resolved response \<Rightarrow>
          (case json response of
             Inl e \<Rightarrow> Inl (Raised e)
           | Inr d \<Rightarrow>
               if \<not> ok response
               then Inl (AuthAPIError
                      (or_default (body_message d) (js ''Authentication request failed''))
                      (or_default (body_code d) (js ''AUTH_ERROR''))
                      (int (status response)))
               else Inr d))"

definition makeRequest ::
  "auth_fetch \<Rightarrow> auth_request \<Rightarrow> (thrown + auth_body) \<times> auth_request list" where
  "makeRequest fetch req =
     (case makeRequest_try fetch req of
        Inr d \<Rightarrow> (Inr d, [req])
      | Inl e \<Rightarrow>
          if is_AuthAPIError e then (Inl e, [req])
          else if is_TypeError e
          then (Inl (AuthAPIError (js ''Network error - please check your connection'')
                   (js ''NETWORK_ERROR'') 0), [req])
          else (Inl (AuthAPIError (js ''An unexpected error occurred'')
                   (js ''UNKNOWN_ERROR'') 500), [req]))"

record LoginCredentials =
  cred_username :: jsstring
  cred_password :: jsstring

record AuthResponse =
  res_token :: "jsstring option"
  res_user :: User
  res_refreshToken :: "jsstring option"
  expiresIn :: int

definition token_request :: "jsstring \<Rightarrow> LoginCredentials \<Rightarrow> auth_request" where
  "token_request JWT_AUTH_ENDPOINT credentials =
     \<lparr>req_url = JWT_AUTH_ENDPOINT @ js ''/token'', req_method = js ''POST'',
      req_authorization = None,
      req_body = Credentials (cred_username credentials) (cred_password credentials)\<rparr>"

definition validate_request :: "jsstring \<Rightarrow> jsstring option \<Rightarrow> auth_request" where
  "validate_request JWT_AUTH_ENDPOINT tok =
     \<lparr>req_url = JWT_AUTH_ENDPOINT @ js ''/token/validate'', req_method = js ''POST'',
      req_authorization = Some (js ''Bearer '' @ template tok), req_body = NoBody\<rparr>"

definition refresh_request :: "jsstring \<Rightarrow> jsstring \<Rightarrow> auth_request" where
  "refresh_request JWT_AUTH_ENDPOINT rt =
     \<lparr>req_url = JWT_AUTH_ENDPOINT @ js ''/token/refresh'', req_method = js ''POST'',
      req_authorization = None, req_body = RefreshWith rt\<rparr>"

definition authAPI_login ::
  "jsstring \<Rightarrow> auth_fetch \<Rightarrow> jsstring \<Rightarrow> LoginCredentials
     \<Rightarrow> (thrown + AuthResponse) \<times> auth_request list" where
  "authAPI_login JWT_AUTH_ENDPOINT fetch now_iso credentials =
     (case makeRequest fetch (token_request JWT_AUTH_ENDPOINT credentials) of
        (Inl e, l1) \<Rightarrow> (Inl e, l1)
      | (Inr response, l1) \<Rightarrow>
          (case makeRequest fetch (validate_request JWT_AUTH_ENDPOINT (body_token response)) of
             (Inl e, l2) \<Rightarrow> (Inl e, l1 @ l2)
           | (Inr userResponse, l2) \<Rightarrow>
               (case transformUser now_iso (body_data userResponse) of
                  Inl e \<Rightarrow> (Inl e, l1 @ l2)
                | Inr u \<Rightarrow>
                    (Inr \<lparr>res_token = body_token response, res_user = u,
                          res_refreshToken = body_refresh_token response,
                          expiresIn = or_number (body_expires_in response) 3600\<rparr>, l1 @ l2))))"

definition validateToken ::
  "jsstring \<Rightarrow> auth_fetch \<Rightarrow> jsstring \<Rightarrow> jsstring option \<Rightarrow> (thrown + User) \<times> auth_request list" where
  "validateToken JWT_AUTH_ENDPOINT fetch now_iso tok =
     (case makeRequest fetch (validate_request JWT_AUTH_ENDPOINT tok) of
        (Inl e, l) \<Rightarrow> (Inl e, l)
      | (Inr response, l) \<Rightarrow> (transformUser now_iso (body_data response), l))"

definition authAPI_refreshToken ::
  "jsstring \<Rightarrow> auth_fetch \<Rightarrow> jsstring \<Rightarrow> jsstring \<Rightarrow> (thrown + AuthResponse) \<times> auth_request list" where
  "authAPI_refreshToken JWT_AUTH_ENDPOINT fetch now_iso rt =
     (case makeRequest fetch (refresh_request JWT_AUTH_ENDPOINT rt) of
        (Inl e, l1) \<Rightarrow> (Inl e, l1)
      | (Inr response, l1) \<Rightarrow>
          (case validateToken JWT_AUTH_ENDPOINT fetch now_iso (body_token response) of
             (Inl e, l2) \<Rightarrow> (Inl e, l1 @ l2)
           | (Inr userResponse, l2) \<Rightarrow>
               (Inr \<lparr>res_token = body_token response, res_user = userResponse,
                     res_refreshToken = or_string (body_refresh_token response) (Some rt),
                     expiresIn = or_number (body_expires_in response) 3600\<rparr>, l1 @ l2)))"

subsection \<open>Local storage\<close>

text \<open>
  \<open>localStorage\<close> maps keys to strings; it is \<open>None\<close> where \<open>window\<close> is undefined.
  \<open>stringify\<close> is \<open>JSON.stringify\<close> on a user. \<open>localStorage.setItem\<close> is the
  platform's: it returns the storage with the value written, or throws (a full or disabled
  storage) and leaves the storage as it was. The functions that write return the value
  thrown, if any, next to the storage as the writes left it.
\<close>

type_synonym storage = "jsstring \<Rightarrow> jsstring option"

type_synonym set_item = "storage \<Rightarrow> jsstring \<Rightarrow> jsstring \<Rightarrow> raised + storage"

definition authAPI_logout :: "storage option \<Rightarrow> storage option" where
  "authAPI_logout ls =
     (case ls of
        None \<Rightarrow> None
      | Some m \<Rightarrow> Some (m(js ''auth_token'' := None, js ''refresh_token'' := None,
                         js ''user_data'' := None)))"

definition storeToken ::
  "set_item \<Rightarrow> jsstring option \<Rightarrow> jsstring option \<Rightarrow> storage option
     \<Rightarrow> raised option \<times> storage option" where
  "storeToken setItem tok rt ls =
     (case ls of
        None \<Rightarrow> (None, None)
      | Some m \<Rightarrow>
          (case setItem m (js ''auth_token'') (template tok) of
             Inl e \<Rightarrow> (Some e, Some m)
           | Inr m1 \<Rightarrow>
               if truthy_string rt then
                 (case setItem m1 (js ''refresh_token'') (template rt) of
                    Inl e \<Rightarrow> (Some e, Some m1)
                  | Inr m2 \<Rightarrow> (None, Some m2))
               else (None, Some m1)))"

definition storeUser ::
  "set_item \<Rightarrow> (User \<Rightarrow> jsstring) \<Rightarrow> User \<Rightarrow> storage option
     \<Rightarrow> raised option \<times> storage option" where
  "storeUser setItem stringify u ls =
     (case ls of
        None \<Rightarrow> (None, None)
      | Some m \<Rightarrow>
          (case setItem m (js ''user_data'') (stringify u) of
             Inl e \<Rightarrow> (Some e, Some m)
           | Inr m1 \<Rightarrow> (None, Some m1)))"

definition getStoredRefreshToken :: "storage option \<Rightarrow> jsstring option" where
  "getStoredRefreshToken ls = (case ls of None \<Rightarrow> None | Some m \<Rightarrow> m (js ''refresh_token''))"

subsection \<open>Token decoding\<close>

text \<open>
  A JavaScript number is a double: not a number, an infinity, or a finite double, which
  is a rational number. Comparing two doubles compares their values, and any comparison
  with not-a-number is false. Arithmetic on doubles rounds its result; it is the
  platform's and is a parameter below.
\<close>

datatype float64 = NotANumber | NegInfinity | Finite rat | PosInfinity

fun double_less :: "float64 \<Rightarrow> float64 \<Rightarrow> bool" where
  "double_less (Finite a) (Finite b) = (a < b)"
| "double_less NegInfinity (Finite b) = True"
| "double_less NegInfinity PosInfinity = True"
| "double_less (Finite a) PosInfinity = True"
| "double_less _ _ = False"

text \<open>
  What \<open>JSON.parse\<close> can return. An object keeps its members in the order of the text;
  of two members with one name the later one counts.
\<close>

datatype json =
    JNull
  | JBool bool
  | JNumber float64
  | JString jsstring
  | JArray "json list"
  | JObject "(jsstring \<times> json) list"

text \<open>\<open>!decoded\<close> is true for \<open>null\<close>, \<open>false\<close>, \<open>0\<close>, \<open>NaN\<close> and the empty string.\<close>

fun truthy :: "json \<Rightarrow> bool" where
  "truthy JNull = False"
| "truthy (JBool b) = b"
| "truthy (JNumber d) = (d \<noteq> Finite 0 \<and> d \<noteq> NotANumber)"
| "truthy (JString s) = (s \<noteq> [])"
| "truthy (JArray xs) = True"
| "truthy (JObject kvs) = True"

text \<open>
  \<open>decoded.exp\<close>: the member named \<open>exp\<close> of a parsed object, and \<open>undefined\<close>
  (\<open>None\<close>) for an object without one, for an array and for a string, number or boolean.
\<close>

fun exp_of :: "json \<Rightarrow> json option" where
  "exp_of (JObject kvs) = map_of (rev kvs) (js ''exp'')"
| "exp_of _ = None"

text \<open>
  \<open>atob\<close>, \<open>decodeURIComponent\<close> and \<open>JSON.parse\<close> belong to the platform and are
  parameters; each may throw. So are the division, multiplication and subtraction of
  doubles, and \<open>ToNumber\<close>, the conversion that \<open><\<close> and \<open>*\<close> apply to a string, an
  array or an object, which may throw as well.
\<close>

record platform =
  atob :: "jsstring \<Rightarrow> raised + jsstring"
  decodeURIComponent :: "jsstring \<Rightarrow> raised + jsstring"
  JSON_parse :: "jsstring \<Rightarrow> raised + json"
  ToNumber :: "json \<Rightarrow> raised + float64"
  divide :: "float64 \<Rightarrow> float64 \<Rightarrow> float64"
  times :: "float64 \<Rightarrow> float64 \<Rightarrow> float64"
  minus :: "float64 \<Rightarrow> float64 \<Rightarrow> float64"

text \<open>
  The number that an operand becomes in \<open>v < t\<close> and \<open>v * t\<close>, \<open>t\<close> a number:
  \<open>undefined\<close> is not a number, \<open>null\<close> is 0, a boolean is 0 or 1.
\<close>

fun to_number :: "platform \<Rightarrow> json option \<Rightarrow> raised + float64" where
  "to_number P None = Inr NotANumber"
| "to_number P (Some JNull) = Inr (Finite 0)"
| "to_number P (Some (JBool b)) = Inr (Finite (if b then 1 else 0))"
| "to_number P (Some (JNumber d)) = Inr d"
| "to_number P (Some v) = ToNumber P v"

definition js_less :: "platform \<Rightarrow> json option \<Rightarrow> float64 \<Rightarrow> raised + bool" where
  "js_less P v t = (case to_number P v of Inl e \<Rightarrow> Inl e | Inr x \<Rightarrow> Inr (double_less x t))"

text \<open>\<open>token.split('.')\<close>: the pieces between the separators, at least one.\<close>

fun split_on :: "code_unit \<Rightarrow> jsstring \<Rightarrow> jsstring list" where
  "split_on sep [] = [] # []"
| "split_on sep (c # cs) =
     (if c = sep then [] # split_on sep cs
      else (case split_on sep cs of p # ps \<Rightarrow> (c # p) # ps | [] \<Rightarrow> [c] # []))"

definition base64url_to_base64 :: "jsstring \<Rightarrow> jsstring" where
  "base64url_to_base64 s =
     map (\<lambda>c. if c = 0x2D then 0x2B else if c = 0x5F then 0x2F else c) s"

definition hex_digit_char :: "nat \<Rightarrow> code_unit" where
  "hex_digit_char d = (if d < 10 then of_nat (48 + d) else of_nat (87 + d))"

function hex_of :: "nat \<Rightarrow> jsstring" where
  "hex_of n = (if n < 16 then [hex_digit_char n] else hex_of (n div 16) @ [hex_digit_char (n mod 16)])"
  by pat_completeness auto
termination
  by (relation "measure id") auto

text \<open>\<open>'%' + ('00' + c.charCodeAt(0).toString(16)).slice(-2)\<close>\<close>

definition percent_byte :: "code_unit \<Rightarrow> jsstring" where
  "percent_byte c =
     (let h = js ''00'' @ hex_of (unat c) in js ''%'' @ drop (length h - 2) h)"

definition decodeToken_try :: "platform \<Rightarrow> jsstring \<Rightarrow> raised + json" where
  "decodeToken_try P tok =
     (case split_on DOT tok of
        _ # base64Url # _ \<Rightarrow>
          (case atob P (base64url_to_base64 base64Url) of
             Inl e \<Rightarrow> Inl e
           | Inr binary \<Rightarrow>
               (case decodeURIComponent P (concat (map percent_byte binary)) of
                  Inl e \<Rightarrow> Inl e
                | Inr jsonPayload \<Rightarrow> JSON_parse P jsonPayload))
      | _ \<Rightarrow> Inl (JSError TypeErr (js ''Cannot read properties of undefined (reading replace)'')))"

text \<open>\<open>decodeToken\<close> returns what \<open>JSON.parse\<close> returned, or \<open>null\<close> from its \<open>catch\<close>.\<close>

definition decodeToken :: "platform \<Rightarrow> jsstring \<Rightarrow> json" where
  "decodeToken P tok = (case decodeToken_try P tok of Inl e \<Rightarrow> JNull | Inr v \<Rightarrow> v)"

text \<open>
  \<open>now_ms\<close> is \<open>Date.now()\<close>, a whole number of milliseconds; \<open>currentTime\<close> is the
  double that the division by 1000 gives. The comparison can throw, so the result is a
  sum.
\<close>

definition isTokenExpired :: "platform \<Rightarrow> jsstring \<Rightarrow> int \<Rightarrow> raised + bool" where
  "isTokenExpired P tok now_ms =
     (let decoded = decodeToken P tok
      in if \<not> truthy decoded then Inr True
         else (let currentTime = divide P (Finite (of_int now_ms)) (Finite 1000)
               in js_less P (exp_of decoded) currentTime))"

section \<open>The session (contexts/AuthContext.tsx)\<close>

record AuthState =
  user :: "User option"
  token :: "jsstring option"
  refreshToken :: "jsstring option"
  isAuthenticated :: bool
  isLoading :: bool
  auth_error :: "jsstring option"

datatype AuthAction =
    AUTH_START
  | AUTH_SUCCESS User "jsstring option" "jsstring option"
  | AUTH_ERROR jsstring
  | AUTH_LOGOUT
  | USER_UPDATE User
  | CLEAR_ERROR

definition initialState :: AuthState where
  "initialState = \<lparr>user = None, token = None, refreshToken = None, isAuthenticated = False,
                   isLoading = False, auth_error = None\<rparr>"

fun authReducer :: "AuthState \<Rightarrow> AuthAction \<Rightarrow> AuthState" where
  "authReducer state AUTH_START = state\<lparr>isLoading := True, auth_error := None\<rparr>"
| "authReducer state (AUTH_SUCCESS u tok rt) =
     state\<lparr>user := Some u, token := tok, refreshToken := or_string rt (refreshToken state),
           isAuthenticated := True, isLoading := False, auth_error := None\<rparr>"
| "authReducer state (AUTH_ERROR msg) =
     state\<lparr>user := None, token := None, refreshToken := None, isAuthenticated := False,
           isLoading := False, auth_error := Some msg\<rparr>"
| "authReducer state AUTH_LOGOUT = initialState"
| "authReducer state (USER_UPDATE u) = state\<lparr>user := Some u\<rparr>"
| "authReducer state CLEAR_ERROR = state\<lparr>auth_error := None\<rparr>"

text \<open>
  What the provider's callbacks act on: the reducer state, the browser's storage and the
  requests sent so far.
\<close>

record world =
  auth_state :: AuthState
  localStorage :: "storage option"
  requests :: "auth_request list"

definition dispatch :: "AuthAction \<Rightarrow> world \<Rightarrow> world" where
  "dispatch a w = w\<lparr>auth_state := authReducer (auth_state w) a\<rparr>"

record provider_env =
  JWT_AUTH_ENDPOINT :: jsstring
  env_fetch :: auth_fetch
  now_iso :: jsstring
  stringify :: "User \<Rightarrow> jsstring"
  setItem :: set_item

text \<open>
  \<open>login\<close> of the provider; the first component is the error it rethrows, if any.
  \<open>login_catch\<close> is its \<open>catch\<close> clause, which also receives what the two writes to
  the storage throw.
\<close>

definition login_catch :: "thrown \<Rightarrow> world \<Rightarrow> thrown option \<times> world" where
  "login_catch e w =
     (let errorMessage =
            (if is_AuthAPIError e then thrown_message e
             else js ''Login failed. Please try again.'')
      in (Some e, dispatch (AUTH_ERROR errorMessage) w))"

definition login :: "provider_env \<Rightarrow> LoginCredentials \<Rightarrow> world \<Rightarrow> thrown option \<times> world" where
  "login E credentials w =
     (let w1 = dispatch AUTH_START w
      in case authAPI_login (JWT_AUTH_ENDPOINT E) (env_fetch E) (now_iso E) credentials of
           (Inl e, l) \<Rightarrow> login_catch e (w1\<lparr>requests := requests w1 @ l\<rparr>)
         | (Inr authResponse, l) \<Rightarrow>
             (case storeToken (setItem E) (res_token authResponse)
                     (res_refreshToken authResponse) (localStorage w1) of
                (Some e, ls1) \<Rightarrow>
                  login_catch (Raised e) (w1\<lparr>requests := requests w1 @ l, localStorage := ls1\<rparr>)
              | (None, ls1) \<Rightarrow>
                  (case storeUser (setItem E) (stringify E) (res_user authResponse) ls1 of
                     (Some e, ls2) \<Rightarrow>
                       login_catch (Raised e)
                         (w1\<lparr>requests := requests w1 @ l, localStorage := ls2\<rparr>)
                   | (None, ls2) \<Rightarrow>
                       (None, dispatch (AUTH_SUCCESS (res_user authResponse)
                                          (res_token authResponse)
                                          (res_refreshToken authResponse))
                                (w1\<lparr>requests := requests w1 @ l, localStorage := ls2\<rparr>)))))"

definition logout :: "world \<Rightarrow> world" where
  "logout w = dispatch AUTH_LOGOUT (w\<lparr>localStorage := authAPI_logout (localStorage w)\<rparr>)"

definition refreshAuth :: "provider_env \<Rightarrow> world \<Rightarrow> world" where
  "refreshAuth E w =
     (let stored = getStoredRefreshToken (localStorage w)
      in if \<not> truthy_string stored then logout w
         else (case authAPI_refreshToken (JWT_AUTH_ENDPOINT E) (env_fetch E) (now_iso E)
                      (template stored) of
                 (Inl e, l) \<Rightarrow> logout (w\<lparr>requests := requests w @ l\<rparr>)
               | (Inr authResponse, l) \<Rightarrow>
                   (case storeToken (setItem E) (res_token authResponse)
                           (res_refreshToken authResponse) (localStorage w) of
                      (Some e, ls1) \<Rightarrow>
                        logout (w\<lparr>requests := requests w @ l, localStorage := ls1\<rparr>)
                    | (None, ls1) \<Rightarrow>
                        (case storeUser (setItem E) (stringify E) (res_user authResponse) ls1 of
                           (Some e, ls2) \<Rightarrow>
                             logout (w\<lparr>requests := requests w @ l, localStorage := ls2\<rparr>)
                         | (None, ls2) \<Rightarrow>
                             dispatch (AUTH_SUCCESS (res_user authResponse)
                                         (res_token authResponse)
                                         (res_refreshToken authResponse))
                               (w\<lparr>requests := requests w @ l, localStorage := ls2\<rparr>)))))"

text \<open>
  The effect that schedules the proactive refresh: the delay of the timer it sets, in
  milliseconds, or \<open>None\<close> when it sets none, which includes its arithmetic throwing.
  The timer's callback is \<open>refreshAuth\<close>.
\<close>

definition autoRefreshTimer :: "platform \<Rightarrow> AuthState \<Rightarrow> int \<Rightarrow> float64 option" where
  "autoRefreshTimer P state now_ms =
     (if \<not> truthy_string (token state) \<or> \<not> isAuthenticated state then None
      else (let decoded = decodeToken P (template (token state))
            in if \<not> truthy decoded then None
               else (case to_number P (exp_of decoded) of
                       Inl e \<Rightarrow> None
                     | Inr x \<Rightarrow>
                         (let refreshTime =
                                minus P (minus P (times P x (Finite 1000)) (Finite (of_int now_ms)))
                                  (Finite (5 * 60 * 1000))
                          in if double_less (Finite 0) refreshTime then Some refreshTime
                             else None))))"

definition is_refresh_request :: "provider_env \<Rightarrow> auth_request \<Rightarrow> bool" where
  "is_refresh_request E req \<longleftrightarrow> req_url req = JWT_AUTH_ENDPOINT E @ js ''/token/refresh''"

definition refresh_attempts :: "provider_env \<Rightarrow> world \<Rightarrow> nat" where
  "refresh_attempts E w = length (filter (is_refresh_request E) (requests w))"

definition storage_cleared :: "storage option \<Rightarrow> bool" where
  "storage_cleared ls =
     (case ls of
        None \<Rightarrow> True
      | Some m \<Rightarrow> m (js ''auth_token'') = None \<and> m (js ''refresh_token'') = None
                  \<and> m (js ''user_data'') = None)"

section \<open>Pagination slice of the content store (store/wordpress.ts)\<close>

text \<open>
  The store keeps four pagination fields among many others; every pagination action
  calls \<open>set\<close> with a partial object, which leaves all other fields of the store as
  they are. The slice is an extensible record, so each action is a function on any
  store that has these four fields. The page numbers are integers.
\<close>

record pagination =
  currentPage :: int
  totalPages :: int
  hasNextPage :: bool
  hasPreviousPage :: bool

definition setPagination :: "int \<Rightarrow> int \<Rightarrow> 'a pagination_scheme \<Rightarrow> 'a pagination_scheme" where
  "setPagination cp tp state =
     state\<lparr>currentPage := cp, totalPages := tp,
           hasNextPage := cp < tp, hasPreviousPage := cp > 1\<rparr>"

definition nextPage :: "'a pagination_scheme \<Rightarrow> 'a pagination_scheme" where
  "nextPage state =
     (let newPage = min (currentPage state + 1) (totalPages state)
      in state\<lparr>currentPage := newPage,
                hasNextPage := newPage < totalPages state,
                hasPreviousPage := newPage > 1\<rparr>)"

definition previousPage :: "'a pagination_scheme \<Rightarrow> 'a pagination_scheme" where
  "previousPage state =
     (let newPage = max (currentPage state - 1) 1
      in state\<lparr>currentPage := newPage,
                hasNextPage := newPage < totalPages state,
                hasPreviousPage := newPage > 1\<rparr>)"

definition goToPage :: "int \<Rightarrow> 'a pagination_scheme \<Rightarrow> 'a pagination_scheme" where
  "goToPage n state =
     state\<lparr>currentPage := max 1 (min n (totalPages state)),
           hasNextPage := n < totalPages state,
           hasPreviousPage := n > 1\<rparr>"

text \<open>The flags agree with the counters; the current page is one of the pages.\<close>

definition flags_consistent :: "'a pagination_scheme \<Rightarrow> bool" where
  "flags_consistent state \<longleftrightarrow>
     hasNextPage state = (currentPage state < totalPages state) \<and>
     hasPreviousPage state = (currentPage state > 1)"

definition page_in_range :: "'a pagination_scheme \<Rightarrow> bool" where
  "page_in_range state \<longleftrightarrow> 1 \<le> currentPage state \<and> currentPage state \<le> totalPages state"

text \<open>The store as it is created: page 1 of 1, both flags false.\<close>

definition initial_pagination :: pagination where
  "initial_pagination =
     \<lparr>currentPage = 1, totalPages = 1, hasNextPage = False, hasPreviousPage = False\<rparr>"

section \<open>The WordPress posts route\<close>






section \<open>Sample data\<close>

definition demo_base :: jsstring where
  "demo_base = js ''https://wp.test/wp-json/wp/v2''"

definition demo_post :: "int \<Rightarrow> jsstring \<Rightarrow> WordPressPost" where
  "demo_post n s =
     \<lparr>post_id = n, post_date = js ''2025-08-01T10:00:00'', post_slug = s,
      title_rendered = js ''Hello world'', content_rendered = js ''<p>Hello world</p>'',
      excerpt_rendered = js ''<p>Hello</p>'', sticky = False, links_featuredmedia = False,
      embedded = None\<rparr>"

definition demo_site :: "WordPressPost list" where
  "demo_site = [demo_post 1 (js ''hello-world''), demo_post 2 (js ''second-post'')]"

definition demo_response :: "nat \<Rightarrow> jsstring \<Rightarrow> (jsstring \<Rightarrow> jsstring option) \<Rightarrow> 'b \<Rightarrow> 'b response" where
  "demo_response code txt hs body =
     \<lparr>status = code, statusText = txt, headers_get = hs, json = Inr body\<rparr>"


definition demo_zero_headers :: "jsstring \<Rightarrow> jsstring option" where
  "demo_zero_headers h =
     (if h = js ''X-WP-TotalPages'' then Some (js ''0'')
      else if h = js ''X-WP-Total'' then Some (js ''0'') else None)"

definition empty_listing :: listing where
  "empty_listing = \<lparr>posts = [], listing_totalPages = Num 1, listing_total = Num 0\<rparr>"

text \<open>
  Tokens as the repository's tests build them, \<open>header.<base64 of the payload>.signature\<close>,
  for the payload texts \<open>{"exp":1}\<close> and \<open>{}\<close>, and a platform that knows these two
  texts: \<open>atob\<close> of \<open>eyJleHAiOjF9\<close> and of \<open>e30=\<close> are the texts, their
  percent-encodings decode to them, and they parse to an object expiring at second 1
  and to the empty object. It divides 1700000000000 and 500 by 1000, where the quotient
  is a double and nothing is rounded. Everything else is refused.
\<close>

definition demo_json :: jsstring where
  "demo_json = js ''{'' @ [0x22] @ js ''exp'' @ [0x22] @ js '':1}''"

definition demo_platform :: platform where
  "demo_platform =
     \<lparr>atob = (\<lambda>s. if s = js ''eyJleHAiOjF9'' then Inr demo_json
                   else if s = js ''e30='' then Inr (js ''{}'')
                   else Inl (JSError PlainError (js ''InvalidCharacterError''))),
      decodeURIComponent = (\<lambda>s. if s = js ''%7b%22%65%78%70%22%3a%31%7d'' then Inr demo_json
                   else if s = js ''%7b%7d'' then Inr (js ''{}'')
                   else Inl (JSError PlainError (js ''URI malformed''))),
      JSON_parse = (\<lambda>s. if s = demo_json then Inr (JObject [(js ''exp'', JNumber (Finite 1))])
                   else if s = js ''{}'' then Inr (JObject [])
                   else Inl (JSError SyntaxErr (js ''Unexpected token''))),
      ToNumber = (\<lambda>v. Inl (JSError TypeErr (js ''Cannot convert object to primitive value''))),
      divide = (\<lambda>a b. if a = Finite 1700000000000 \<and> b = Finite 1000 then Finite 1700000000
                   else if a = Finite 500 \<and> b = Finite 1000 then Finite (1 / 2)
                   else NotANumber),
      times = (\<lambda>a b. NotANumber),
      minus = (\<lambda>a b. NotANumber)\<rparr>"



text \<open>
  The JWT endpoints as the repository's mock handlers answer them: \<open>/token\<close> accepts
  \<open>testuser\<close> with \<open>password\<close> and issues \<open>mock-jwt-token\<close>, \<open>/token/validate\<close>
  accepts that token and answers with the status and the user under \<open>data.user\<close>, and
  both answer 401 with no body otherwise. Every refresh is refused.
\<close>

definition demo_jwt :: jsstring where
  "demo_jwt = js ''https://wp.test/wp-json/jwt-auth/v1''"

definition empty_body :: auth_body where
  "empty_body = \<lparr>body_message = None, body_code = None, body_token = None,
                  body_refresh_token = None, body_expires_in = None, body_data = None\<rparr>"

definition mock_user :: wpUser where
  "mock_user =
     \<lparr>wp_id = Some 1, wp_username = Some (js ''testuser''), wp_slug = None,
      wp_email = Some (js ''test@example.com''), first_name = None, last_name = None,
      wp_name = Some (js ''Test User''), display_name = None,
      wp_roles = Some [js ''subscriber''], wp_capabilities = None,
      wp_avatar_urls = None, wp_description = None, wp_url = None, registered_date = None,
      wp_meta = None\<rparr>"

definition mock_validate_data :: validate_data where
  "mock_validate_data =
     \<lparr>wp_id = None, wp_username = None, wp_slug = None, wp_email = None, first_name = None,
      last_name = None, wp_name = None, display_name = None, wp_roles = None,
      wp_capabilities = None, wp_avatar_urls = None, wp_description = None, wp_url = None,
      registered_date = None, wp_meta = None,
      data_status = Some 200, data_user = Some mock_user\<rparr>"

definition unauthorized :: "auth_body response" where
  "unauthorized =
     \<lparr>status = 401, statusText = js ''Unauthorized'', headers_get = (\<lambda>h. None),
      json = Inl (JSError SyntaxErr (js ''Unexpected end of JSON input''))\<rparr>"

definition demo_auth_server :: auth_fetch where
  "demo_auth_server req =
     (if req_url req = demo_jwt @ js ''/token'' then
        (if req_body req = Credentials (js ''testuser'') (js ''password'')
         then Resolved (demo_response 200 (js ''OK'') (\<lambda>h. None)
                (empty_body\<lparr>body_token := Some (js ''mock-jwt-token'')\<rparr>))
         else Resolved unauthorized)
      else if req_url req = demo_jwt @ js ''/token/validate'' then
        (if req_authorization req = Some (js ''Bearer mock-jwt-token'')
         then Resolved (demo_response 200 (js ''OK'') (\<lambda>h. None)
                (empty_body\<lparr>body_code := Some (js ''jwt_auth_valid_token''),
                             body_data := Some mock_validate_data\<rparr>))
         else Resolved unauthorized)
      else if req_url req = demo_jwt @ js ''/token/refresh'' then
        Resolved (demo_response 401 (js ''Unauthorized'') (\<lambda>h. None)
          (empty_body\<lparr>body_message := Some (js ''Refresh token expired'')\<rparr>))
      else Rejected (JSError TypeErr (js ''Failed to fetch'')))"

definition demo_env :: provider_env where
  "demo_env = \<lparr>JWT_AUTH_ENDPOINT = demo_jwt, env_fetch = demo_auth_server,
                now_iso = js ''2025-08-01T10:00:00.000Z'', stringify = (\<lambda>u. js ''{}''),
                setItem = (\<lambda>m k v. Inr (m(k \<mapsto> v)))\<rparr>"

definition demo_world :: world where
  "demo_world = \<lparr>auth_state = initialState, localStorage = Some (\<lambda>k. None), requests = []\<rparr>"

text \<open>A browser with a session whose stored refresh token the endpoint will refuse.\<close>

definition stale_world :: world where
  "stale_world =
     \<lparr>auth_state = initialState\<lparr>token := Some (js ''old-token''), isAuthenticated := True,
                                  refreshToken := Some (js ''old-refresh'')\<rparr>,
      localStorage = Some ((\<lambda>k. None)(js ''auth_token'' \<mapsto> js ''old-token'',
                                        js ''refresh_token'' \<mapsto> js ''old-refresh'',
                                        js ''user_data'' \<mapsto> js ''{}'')),
      requests = []\<rparr>"

section \<open>Pagination: flags and range\<close>

lemma setPagination_flags: "flags_consistent (setPagination cp tp state)"
  by (simp add: flags_consistent_def setPagination_def)

lemma nextPage_flags: "flags_consistent (nextPage state)"
  by (simp add: flags_consistent_def nextPage_def Let_def)

lemma previousPage_flags: "flags_consistent (previousPage state)"
  by (simp add: flags_consistent_def previousPage_def Let_def)

lemma nextPage_range: "page_in_range state \<Longrightarrow> page_in_range (nextPage state)"
  by (simp add: page_in_range_def nextPage_def Let_def)

lemma previousPage_range: "page_in_range state \<Longrightarrow> page_in_range (previousPage state)"
  by (simp add: page_in_range_def previousPage_def Let_def)

lemma goToPage_range: "page_in_range state \<Longrightarrow> page_in_range (goToPage n state)"
  by (simp add: page_in_range_def goToPage_def)

lemma goToPage_flags_in_range:
  "1 \<le> n \<Longrightarrow> n \<le> totalPages state \<Longrightarrow> flags_consistent (goToPage n state)"
  by (simp add: flags_consistent_def goToPage_def)

text \<open>
  C9. Every pagination action keeps the flags equal to \<open>currentPage < totalPages\<close> and
  \<open>currentPage > 1\<close>. This fails for \<open>goToPage\<close>, which clamps the page it stores but
  derives both flags from the page it was given: on the initial store (page 1 of 1),
  \<open>goToPage 2\<close> stays on page 1, which is in range, and reports a previous page.
\<close>

theorem goToPage_flags_from_unclamped_page:
  "currentPage (goToPage 2 initial_pagination) = 1 \<and>
   totalPages (goToPage 2 initial_pagination) = 1 \<and>
   hasPreviousPage (goToPage 2 initial_pagination) \<and>
   page_in_range initial_pagination \<and>
   flags_consistent initial_pagination \<and>
   \<not> flags_consistent (goToPage 2 initial_pagination)"
  by (simp add: goToPage_def initial_pagination_def flags_consistent_def page_in_range_def)

section \<open>Excerpts: stripping, trimming and truncating again\<close>

lemma strip_tags_other: "c \<noteq> LT_SIGN \<Longrightarrow> strip_tags (c # cs) = c # strip_tags cs"
  by simp

lemma strip_tags_open:
  "dropWhile (\<lambda>d. d \<noteq> GT_SIGN) cs = [] \<Longrightarrow> strip_tags (LT_SIGN # cs) = LT_SIGN # strip_tags cs"
  by (simp del: dropWhile_eq_Nil_conv)

lemma strip_tags_tag:
  "dropWhile (\<lambda>d. d \<noteq> GT_SIGN) cs = g # rest \<Longrightarrow> strip_tags (LT_SIGN # cs) = strip_tags rest"
  by simp

lemma set_strip_tags: "set (strip_tags xs) \<subseteq> set xs"
proof (induction xs rule: strip_tags.induct)
  case 1
  show ?case by simp
next
  case (2 c cs)
  show ?case
  proof (cases "c = LT_SIGN")
    case False
    with 2 show ?thesis by auto
  next
    case lt: True
    show ?thesis
    proof (cases "dropWhile (\<lambda>d. d \<noteq> GT_SIGN) cs")
      case Nil
      show ?thesis
        unfolding lt strip_tags_open [OF Nil] using 2(1) [OF lt Nil] by auto
    next
      case (Cons g rest)
      have "set rest \<subseteq> set cs"
        using set_dropWhileD [of _ "\<lambda>d. d \<noteq> GT_SIGN" cs] Cons by auto
      then show ?thesis
        unfolding lt strip_tags_tag [OF Cons] using 2(2) [OF lt Cons] by auto
    qed
  qed
qed

lemma no_tag_strip_tags: "no_tag (strip_tags xs)"
proof (induction xs rule: strip_tags.induct)
  case 1
  show ?case by simp
next
  case (2 c cs)
  show ?case
  proof (cases "c = LT_SIGN")
    case False
    with 2 show ?thesis by simp
  next
    case lt: True
    show ?thesis
    proof (cases "dropWhile (\<lambda>d. d \<noteq> GT_SIGN) cs")
      case Nil
      then have "GT_SIGN \<notin> set cs" by (auto simp: dropWhile_eq_Nil_conv)
      then have "GT_SIGN \<notin> set (strip_tags cs)" using set_strip_tags [of cs] by auto
      then show ?thesis
        unfolding lt strip_tags_open [OF Nil] using 2(1) [OF lt Nil] by simp
    next
      case (Cons g rest)
      show ?thesis
        unfolding lt strip_tags_tag [OF Cons] using 2(2) [OF lt Cons] by simp
    qed
  qed
qed

lemma strip_tags_no_tag: "no_tag xs \<Longrightarrow> strip_tags xs = xs"
proof (induction xs)
  case Nil
  show ?case by simp
next
  case (Cons c cs)
  show ?case
  proof (cases "c = LT_SIGN")
    case False
    with Cons show ?thesis by simp
  next
    case True
    with Cons.prems have "GT_SIGN \<notin> set cs" by simp
    then have "dropWhile (\<lambda>d. d \<noteq> GT_SIGN) cs = []" by (auto simp: dropWhile_eq_Nil_conv)
    then show ?thesis
      unfolding True using strip_tags_open [of cs] Cons by simp
  qed
qed

lemma no_tag_append:
  "no_tag (xs @ ys) \<longleftrightarrow> no_tag xs \<and> no_tag ys \<and> (LT_SIGN \<notin> set xs \<or> GT_SIGN \<notin> set ys)"
  by (induction xs) auto

lemma no_tag_take: "no_tag xs \<Longrightarrow> no_tag (take k xs)"
  using no_tag_append [of "take k xs" "drop k xs"] by simp

lemma no_tag_dropWhile: "no_tag xs \<Longrightarrow> no_tag (dropWhile P xs)"
  using no_tag_append [of "takeWhile P xs" "dropWhile P xs"] by simp

lemma rev_dropWhile_rev_prefix:
  "rev (dropWhile P (rev xs)) @ rev (takeWhile P (rev xs)) = xs"
proof -
  have "rev (takeWhile P (rev xs) @ dropWhile P (rev xs)) = xs" by simp
  then show ?thesis by (simp only: rev_append)
qed

lemma no_tag_trim: "no_tag xs \<Longrightarrow> no_tag (trim xs)"
proof -
  assume "no_tag xs"
  then have d: "no_tag (dropWhile is_white_space xs)" by (rule no_tag_dropWhile)
  show ?thesis
    using d rev_dropWhile_rev_prefix [of is_white_space "dropWhile is_white_space xs"]
      no_tag_append [of "trim xs" "rev (takeWhile is_white_space (rev (dropWhile is_white_space xs)))"]
    by (simp add: trim_def)
qed

lemma no_tag_dots: "no_tag (xs @ js ''...'') = no_tag xs"
  by (simp add: no_tag_append js_def GT_SIGN_def LT_SIGN_def)

lemma length_trim_le: "length (trim xs) \<le> length xs"
proof -
  have "length (trim xs) \<le> length (dropWhile is_white_space xs)"
    using length_dropWhile_le [of is_white_space "rev (dropWhile is_white_space xs)"]
    by (simp add: trim_def)
  also have "\<dots> \<le> length xs" by (rule length_dropWhile_le)
  finally show ?thesis .
qed

lemma dropWhile_id_conv: "dropWhile P xs = xs \<longleftrightarrow> xs = [] \<or> \<not> P (hd xs)"
  by (cases xs) (auto simp: dropWhile_eq_Cons_conv)

lemma trim_id_conv:
  "trim xs = xs \<longleftrightarrow> xs = [] \<or> (\<not> is_white_space (hd xs) \<and> \<not> is_white_space (last xs))"
proof (cases "dropWhile is_white_space xs = xs")
  case True
  then show ?thesis
    using dropWhile_id_conv [of is_white_space "rev xs"] dropWhile_id_conv [of is_white_space xs]
    by (auto simp: trim_def hd_rev rev_swap)
next
  case False
  then have "length (dropWhile is_white_space xs) < length xs"
    using length_dropWhile_le [of is_white_space xs] 
    by (metis le_neq_implies_less takeWhile_dropWhile_id append_self_conv2 length_append
        add_diff_cancel_right' diff_is_0_eq' length_0_conv)
  moreover have "length (trim xs) \<le> length (dropWhile is_white_space xs)"
    using length_dropWhile_le [of is_white_space "rev (dropWhile is_white_space xs)"]
    by (simp add: trim_def)
  ultimately have "trim xs \<noteq> xs" by auto
  with False show ?thesis using dropWhile_id_conv [of is_white_space xs] by auto
qed

lemma trim_trimmed: "trim (trim xs) = trim xs"
proof -
  let ?v = "dropWhile is_white_space xs"
  have v: "?v = [] \<or> \<not> is_white_space (hd ?v)"
    using hd_dropWhile [of is_white_space xs] by blast
  have split: "trim xs @ rev (takeWhile is_white_space (rev ?v)) = ?v"
    using rev_dropWhile_rev_prefix [of is_white_space ?v] by (simp add: trim_def)
  show ?thesis
  proof (cases "trim xs = []")
    case True
    have "trim [] = []" by (simp add: trim_def)
    with True show ?thesis by simp
  next
    case False
    then have "hd (trim xs) = hd ?v" using split by (metis hd_append2)
    moreover have "?v \<noteq> []" using False split by (metis Nil_is_append_conv)
    ultimately have h: "\<not> is_white_space (hd (trim xs))" using v by metis
    have r: "dropWhile is_white_space (rev ?v) = rev (trim xs)" by (simp add: trim_def)
    have "rev (trim xs) \<noteq> []" using False by simp
    then have "dropWhile is_white_space (rev ?v) \<noteq> []" by (metis r)
    then have "\<not> is_white_space (hd (dropWhile is_white_space (rev ?v)))"
      by (rule hd_dropWhile)
    then have "\<not> is_white_space (hd (rev (trim xs)))" by (metis r)
    then have "\<not> is_white_space (last (trim xs))" using False by (simp add: hd_rev)
    with h show ?thesis using trim_id_conv [of "trim xs"] by simp
  qed
qed


lemma trim_Nil: "trim [] = []"
  by (simp add: trim_def)

lemma trim_same_length: assumes "length (trim u) = length u" shows "trim u = u"
proof -
  let ?v = "dropWhile is_white_space u"
  have 1: "length (takeWhile is_white_space u) + length ?v = length u"
    by (metis length_append takeWhile_dropWhile_id)
  have "trim u @ rev (takeWhile is_white_space (rev ?v)) = ?v"
    unfolding trim_def by (rule rev_dropWhile_rev_prefix)
  then have "length (trim u @ rev (takeWhile is_white_space (rev ?v))) = length ?v"
    by (rule arg_cong)
  then have 2: "length (trim u) + length (takeWhile is_white_space (rev ?v)) = length ?v"
    by simp
  from assms 1 2 have "length (takeWhile is_white_space u) = 0"
    and "length (takeWhile is_white_space (rev ?v)) = 0" by linarith+
  then have a: "takeWhile is_white_space u = []"
    and b: "takeWhile is_white_space (rev ?v) = []" by (simp_all only: length_0_conv)
  from a have "?v = u" using takeWhile_dropWhile_id [of is_white_space u] by simp
  moreover from b have "trim u = ?v"
    using rev_dropWhile_rev_prefix [of is_white_space ?v] by (simp add: trim_def)
  ultimately show ?thesis by simp
qed

lemma trim_append_visible:
  assumes "trim t = t" and "ds \<noteq> []" and "\<not> is_white_space (hd ds)" and "\<not> is_white_space (last ds)"
  shows "trim (t @ ds) = t @ ds"
proof -
  have "\<not> is_white_space (hd (t @ ds))"
    using assms trim_id_conv [of t] by (cases t) auto
  moreover have "\<not> is_white_space (last (t @ ds))" using assms by simp
  ultimately show ?thesis using trim_id_conv [of "t @ ds"] by simp
qed

lemma dot_visible: "\<not> is_white_space DOT"
  by (simp add: is_white_space_def DOT_def)

lemma js_dots: "js ''...'' = replicate 3 DOT"
proof -
  have "js ''...'' = [DOT, DOT, DOT]" by (simp add: js_def DOT_def)
  also have "\<dots> = replicate 3 DOT" by (simp add: numeral_3_eq_3)
  finally show ?thesis .
qed

lemma take_dots:
  assumes "0 < k"
  shows "take k (js ''...'') \<noteq> []" and "\<not> is_white_space (hd (take k (js ''...'')))"
    and "\<not> is_white_space (last (take k (js ''...'')))"
proof -
  have m: "min k 3 \<noteq> 0" using assms by simp
  have t: "take k (js ''...'') = replicate (min k 3) DOT"
    by (simp only: js_dots take_replicate)
  show "take k (js ''...'') \<noteq> []" using m by (simp only: t) simp
  show "\<not> is_white_space (hd (take k (js ''...'')))"
    using m dot_visible by (simp add: t)
  show "\<not> is_white_space (last (take k (js ''...'')))"
    using m dot_visible by (simp add: t)
qed

lemma createExcerpt_idempotent_iff:
  "createExcerpt (createExcerpt s n) n = createExcerpt s n \<longleftrightarrow>
     int (length (strip_tags s)) \<le> n
     \<or> trim (take (nat n) (strip_tags s)) = take (nat n) (strip_tags s)
     \<or> int (length (trim (take (nat n) (strip_tags s)))) + 3 \<le> n"
proof (cases "int (length (strip_tags s)) \<le> n")
  case True
  then have "createExcerpt s n = strip_tags s" by (simp add: createExcerpt_def)
  moreover have "strip_tags (strip_tags s) = strip_tags s"
    by (rule strip_tags_no_tag) (rule no_tag_strip_tags)
  ultimately show ?thesis using True by (simp add: createExcerpt_def)
next
  case long: False
  let ?u = "take (nat n) (strip_tags s)"
  let ?t = "trim ?u"
  let ?r = "?t @ js ''...''"
  have first: "createExcerpt s n = ?r" using long by (simp add: createExcerpt_def Let_def)
  have "no_tag ?r"
    by (simp only: no_tag_dots) (intro no_tag_trim no_tag_take no_tag_strip_tags)
  then have clean: "strip_tags ?r = ?r" by (rule strip_tags_no_tag)
  have len_u: "length ?u = nat n" using long by simp
  have len_t: "length ?t \<le> nat n" by (metis length_trim_le len_u)
  have len_r: "length ?r = length ?t + 3" by (simp add: js_def)
  show ?thesis
  proof (cases "int (length ?t) + 3 \<le> n")
    case True
    then have "createExcerpt ?r n = ?r" using clean len_r by (simp add: createExcerpt_def)
    with first True show ?thesis by simp
  next
    case False
    then have second: "createExcerpt ?r n = trim (take (nat n) ?r) @ js ''...''"
      using clean len_r by (simp add: createExcerpt_def)
    show ?thesis
    proof (cases "?t = ?u")
      case True
      then have "length ?t = nat n" using len_u by simp
      then have "take (nat n) ?r = ?t" by simp
      then have "createExcerpt ?r n = ?r" using second trim_trimmed [of ?u] by simp
      with first True show ?thesis by simp
    next
      case neq: False
      have "length ?t \<noteq> nat n" using neq trim_same_length [of ?u] len_u by auto
      with len_t have lt: "length ?t < nat n" by simp
      let ?ds = "take (nat n - length ?t) (js ''...'')"
      have tk: "take (nat n) ?r = ?t @ ?ds" using len_t by simp
      have k: "0 < nat n - length ?t" using lt by simp
      note ds = take_dots [OF k]
      have "trim (?t @ ?ds) = ?t @ ?ds"
        using trim_trimmed [of ?u] ds by (rule trim_append_visible)
      then have "trim (take (nat n) ?r) \<noteq> ?t" using tk ds(1) by simp
      then have "createExcerpt ?r n \<noteq> ?r" using second by simp
      with first long False neq show ?thesis by simp
    qed
  qed
qed


text \<open>
  C3 as stated fails: truncating an excerpt again at the same budget can change it. With
  budget 6, \<open>Hello world\<close> is cut to \<open>Hello \<close>, trimmed to \<open>Hello\<close> and becomes
  \<open>Hello...\<close>; cut again, its first six code units \<open>Hello.\<close> get a second ellipsis.
\<close>

theorem createExcerpt_not_idempotent:
  "createExcerpt (js ''Hello world'') 6 = js ''Hello...''
   \<and> createExcerpt (createExcerpt (js ''Hello world'') 6) 6 = js ''Hello....''
   \<and> createExcerpt (createExcerpt (js ''Hello world'') 6) 6 \<noteq> createExcerpt (js ''Hello world'') 6"
  by (simp add: createExcerpt_def js_def LT_SIGN_def GT_SIGN_def trim_def is_white_space_def)

text \<open>
  C3, amended. Truncating again at the same budget \<open>n\<close> gives the same excerpt exactly
  when the tag-stripped text has at most \<open>n\<close> code units, or trimming its first \<open>n\<close>
  code units removes nothing, or the trimmed prefix with its ellipsis still fits in
  \<open>n\<close>. A text whose tag-stripped length is at most \<open>n\<close> comes back as the
  tag-stripped text, with no ellipsis; a longer one comes back as the trimmed prefix
  followed by the ellipsis.
\<close>

theorem createExcerpt_retruncation:
  "(createExcerpt (createExcerpt s n) n = createExcerpt s n \<longleftrightarrow>
      int (length (strip_tags s)) \<le> n
      \<or> trim (take (nat n) (strip_tags s)) = take (nat n) (strip_tags s)
      \<or> int (length (trim (take (nat n) (strip_tags s)))) + 3 \<le> n)
   \<and> (int (length (strip_tags s)) \<le> n \<longrightarrow> createExcerpt s n = strip_tags s)
   \<and> (n < int (length (strip_tags s)) \<longrightarrow>
        createExcerpt s n = trim (take (nat n) (strip_tags s)) @ js ''...'')"
proof (intro conjI)
  show "createExcerpt (createExcerpt s n) n = createExcerpt s n \<longleftrightarrow>
      int (length (strip_tags s)) \<le> n
      \<or> trim (take (nat n) (strip_tags s)) = take (nat n) (strip_tags s)
      \<or> int (length (trim (take (nat n) (strip_tags s)))) + 3 \<le> n"
    by (rule createExcerpt_idempotent_iff)
  show "int (length (strip_tags s)) \<le> n \<longrightarrow> createExcerpt s n = strip_tags s"
    by (simp add: createExcerpt_def)
  show "n < int (length (strip_tags s)) \<longrightarrow>
        createExcerpt s n = trim (take (nat n) (strip_tags s)) @ js ''...''"
    by (simp add: createExcerpt_def)
qed

lemma strip_tags_hello: "strip_tags (js ''<p>Hello</p>'') = js ''Hello''"
  by (simp add: js_def LT_SIGN_def GT_SIGN_def)

lemma strip_tags_hello_world: "strip_tags (js ''Hello world'') = js ''Hello world''"
  by (simp add: js_def LT_SIGN_def GT_SIGN_def)

theorem createExcerpt_retruncation_witness:
  "int (length (strip_tags (js ''<p>Hello</p>''))) \<le> 160
   \<and> createExcerpt (js ''<p>Hello</p>'') 160 = js ''Hello''
   \<and> 5 < int (length (strip_tags (js ''Hello world'')))
   \<and> createExcerpt (js ''Hello world'') 5 = js ''Hello...''
   \<and> createExcerpt (createExcerpt (js ''Hello world'') 5) 5 = createExcerpt (js ''Hello world'') 5"
proof -
  have short: "int (length (strip_tags (js ''<p>Hello</p>''))) \<le> 160"
    by (simp add: strip_tags_hello) (simp add: js_def)
  have long: "5 < int (length (strip_tags (js ''Hello world'')))"
    by (simp add: strip_tags_hello_world) (simp add: js_def)
  have exact: "trim (take (nat 5) (strip_tags (js ''Hello world'')))
                 = take (nat 5) (strip_tags (js ''Hello world''))"
    by (simp add: strip_tags_hello_world) (simp add: js_def trim_def is_white_space_def)
  have pre: "trim (take (nat 5) (strip_tags (js ''Hello world''))) @ js ''...'' = js ''Hello...''"
    by (simp add: strip_tags_hello_world) (simp add: js_def trim_def is_white_space_def)
  note t1 = createExcerpt_retruncation [of "js ''<p>Hello</p>''" 160]
  note t2 = createExcerpt_retruncation [of "js ''Hello world''" 5]
  have a: "createExcerpt (js ''<p>Hello</p>'') 160 = js ''Hello''"
    using t1 short by (simp add: strip_tags_hello)
  have b: "createExcerpt (js ''Hello world'') 5 = js ''Hello...''"
    using t2 long pre by simp
  have c: "createExcerpt (createExcerpt (js ''Hello world'') 5) 5 = createExcerpt (js ''Hello world'') 5"
    using t2 exact by blast
  from short a long b c show ?thesis by (intro conjI)
qed

section \<open>The content gateway: error results\<close>

text \<open>
  C2. \<open>apiRequest\<close> returns a value on every path: a rejected \<open>fetch\<close>, a status
  outside 200 to 299 and a body that does not parse each give \<open>data = null\<close> with the
  message of what was thrown as \<open>error\<close>; a parsed body of a 2xx answer gives that body
  with \<open>error = null\<close>.
\<close>

theorem apiRequest_typed_error:
  fixes fetch :: "jsstring \<Rightarrow> 'b fetch_result"
  shows "(\<forall>e. fetch (base @ endpoint) = Rejected e \<longrightarrow>
            apiRequest base fetch endpoint =
              \<lparr>data = None,
               error = Some (if is_Error e then message_of e else js ''Unknown API error''),
               resp_totalPages = None, resp_total = None\<rparr>)
       \<and> (\<forall>r. fetch (base @ endpoint) = Resolved r \<and> \<not> ok r \<longrightarrow>
            apiRequest base fetch endpoint =
              \<lparr>data = None,
               error = Some (js ''WordPress API Error: '' @ toString (int (status r)) @ js '' ''
                               @ statusText r),
               resp_totalPages = None, resp_total = None\<rparr>)
       \<and> (\<forall>r e. fetch (base @ endpoint) = Resolved r \<and> ok r \<and> json r = Inl e \<longrightarrow>
            apiRequest base fetch endpoint =
              \<lparr>data = None,
               error = Some (if is_Error e then message_of e else js ''Unknown API error''),
               resp_totalPages = None, resp_total = None\<rparr>)
       \<and> (\<forall>r d. fetch (base @ endpoint) = Resolved r \<and> ok r \<and> json r = Inr d \<longrightarrow>
            data (apiRequest base fetch endpoint) = Some d
            \<and> error (apiRequest base fetch endpoint) = None)"
  by (simp add: apiRequest_def apiRequest_try_def)

theorem apiRequest_typed_error_witness:
  "apiRequest demo_base
       (\<lambda>u. Rejected (JSError TypeErr (js ''Failed to fetch'')) :: nat list fetch_result)
       (js ''/posts'')
     = \<lparr>data = None, error = Some (js ''Failed to fetch''),
        resp_totalPages = None, resp_total = None\<rparr>
   \<and> apiRequest demo_base
       (\<lambda>u. Resolved (demo_response 404 (js ''Not Found'') (\<lambda>h. None) ([] :: nat list)))
       (js ''/posts'')
     = \<lparr>data = None, error = Some (js ''WordPress API Error: 404 Not Found''),
        resp_totalPages = None, resp_total = None\<rparr>
   \<and> apiRequest demo_base
       (\<lambda>u. Resolved \<lparr>status = 200, statusText = js ''OK'', headers_get = (\<lambda>h. None),
                       json = Inl (JSError SyntaxErr (js ''Unexpected token <''))\<rparr>
               :: nat list fetch_result)
       (js ''/posts'')
     = \<lparr>data = None, error = Some (js ''Unexpected token <''),
        resp_totalPages = None, resp_total = None\<rparr>
   \<and> error (apiRequest demo_base
       (\<lambda>u. Resolved (demo_response 200 (js ''OK'') (\<lambda>h. None) ([1, 2, 3] :: nat list)))
       (js ''/posts'')) = None"
proof -
  let ?ep = "js ''/posts''"
  let ?f1 = "\<lambda>u::jsstring. Rejected (JSError TypeErr (js ''Failed to fetch'')) :: nat list fetch_result"
  let ?r2 = "demo_response 404 (js ''Not Found'') (\<lambda>h. None) ([] :: nat list)"
  let ?r3 = "\<lparr>status = 200, statusText = js ''OK'', headers_get = (\<lambda>h. None),
              json = Inl (JSError SyntaxErr (js ''Unexpected token <''))\<rparr> :: nat list response"
  let ?r4 = "demo_response 200 (js ''OK'') (\<lambda>h. None) ([1, 2, 3] :: nat list)"
  have n: "toString 404 = js ''404''" by (simp add: toString_def js_def digit_char_def)
  have 1: "apiRequest demo_base ?f1 ?ep = \<lparr>data = None, error = Some (js ''Failed to fetch''),
        resp_totalPages = None, resp_total = None\<rparr>"
    using apiRequest_typed_error [of ?f1 demo_base ?ep] by simp
  have 2: "apiRequest demo_base (\<lambda>u. Resolved ?r2) ?ep
     = \<lparr>data = None, error = Some (js ''WordPress API Error: 404 Not Found''),
        resp_totalPages = None, resp_total = None\<rparr>"
    using apiRequest_typed_error [of "\<lambda>u. Resolved ?r2" demo_base ?ep] n
    by (simp add: ok_def js_def demo_response_def)
  have 3: "apiRequest demo_base (\<lambda>u. Resolved ?r3) ?ep
     = \<lparr>data = None, error = Some (js ''Unexpected token <''),
        resp_totalPages = None, resp_total = None\<rparr>"
    using apiRequest_typed_error [of "\<lambda>u. Resolved ?r3" demo_base ?ep] by (simp add: ok_def)
  have 4: "error (apiRequest demo_base (\<lambda>u. Resolved ?r4) ?ep) = None"
    using apiRequest_typed_error [of "\<lambda>u. Resolved ?r4" demo_base ?ep]
    by (simp add: ok_def demo_response_def)
  from 1 2 3 4 show ?thesis by (intro conjI)
qed

section \<open>Fetching a post by its slug\<close>



text \<open>Whatever the network does, \<open>getPostBySlug\<close> returns one of two shapes.\<close>

lemma getPostBySlug_returns:
  "(\<exists>p. getPostBySlug base fetch s =
          \<lparr>data = Some p, error = None, resp_totalPages = None, resp_total = None\<rparr>)
   \<or> getPostBySlug base fetch s =
          \<lparr>data = None, error = Some (js ''Post not found''),
           resp_totalPages = None, resp_total = None\<rparr>"
  by (simp add: getPostBySlug_def Let_def split: option.splits list.splits)










section \<open>Listings: what is read from the response\<close>

lemma parseInt_1: "parseInt (js ''1'') = Num 1"
  by (simp add: parseInt_def js_def is_white_space_def is_digit_def digits_value_def
      digit_value_def)

lemma parseInt_0: "parseInt (js ''0'') = Num 0"
  by (simp add: parseInt_def js_def is_white_space_def is_digit_def digits_value_def
      digit_value_def)


lemma parseInt_50: "parseInt (js ''50'') = Num 50"
  by (simp add: parseInt_def js_def is_white_space_def is_digit_def digits_value_def
      digit_value_def)





section \<open>The server-side listing: failures\<close>

lemma server_getPosts_empty_answer:
  assumes "fetch (base @ posts_endpoint urlencode params) = Resolved r"
    and "ok r" and "json r = Inr []"
  shows "server_getPosts base urlencode fetch params =
           \<lparr>posts = [],
            listing_totalPages =
              parseInt (or_default (headers_get r (js ''X-WP-TotalPages'')) (js ''1'')),
            listing_total =
              parseInt (or_default (headers_get r (js ''X-WP-Total'')) (js ''0''))\<rparr>"
  using assms by (simp add: server_getPosts_def server_getPosts_try_def)

text \<open>
  C10 as stated fails in its last part: a failed fetch can be told from an empty listing.
  WordPress answers a query that matches nothing with \<open>[]\<close> and the headers
  \<open>X-WP-TotalPages: 0\<close> and \<open>X-WP-Total: 0\<close>, which gives \<open>totalPages = 0\<close>; a
  failure gives \<open>totalPages = 1\<close>.
\<close>

theorem failed_listing_differs_from_empty_listing:
  "server_getPosts demo_base (\<lambda>s. s)
      (\<lambda>u. Resolved (demo_response 200 (js ''OK'') demo_zero_headers [])) no_params
     = \<lparr>posts = [], listing_totalPages = Num 0, listing_total = Num 0\<rparr>
   \<and> server_getPosts demo_base (\<lambda>s. s)
      (\<lambda>u. Rejected (JSError TypeErr (js ''Failed to fetch''))) no_params
     = \<lparr>posts = [], listing_totalPages = Num 1, listing_total = Num 0\<rparr>
   \<and> server_getPosts demo_base (\<lambda>s. s)
      (\<lambda>u. Resolved (demo_response 200 (js ''OK'') demo_zero_headers [])) no_params
     \<noteq> server_getPosts demo_base (\<lambda>s. s)
      (\<lambda>u. Rejected (JSError TypeErr (js ''Failed to fetch''))) no_params"
  by (simp add: server_getPosts_def server_getPosts_try_def demo_response_def ok_def
      demo_zero_headers_def or_default_def parseInt_0) (simp add: js_def)

text \<open>
  C10, amended. Every failure of \<open>serverPostsAPI.getPosts\<close> (a rejected \<open>fetch\<close>,
  which is how a transport error or a timeout shows, a status outside 200 to 299, a body
  that does not parse) gives the value \<open>{posts: [], totalPages: 1, total: 0}\<close>: nothing
  is thrown and the value carries no error field. A 2xx answer with an empty list gives
  \<open>posts = []\<close> with the counts parsed from its pagination headers, so it gives the very
  same value when it carries no pagination headers, and a different \<open>totalPages\<close> when
  the header says otherwise.
\<close>

theorem server_getPosts_failure_is_empty_listing:
  "(\<forall>e. fetch (base @ posts_endpoint urlencode params) = Rejected e \<longrightarrow>
        server_getPosts base urlencode fetch params = empty_listing)
   \<and> (\<forall>r. fetch (base @ posts_endpoint urlencode params) = Resolved r \<and> \<not> ok r \<longrightarrow>
        server_getPosts base urlencode fetch params = empty_listing)
   \<and> (\<forall>r e. fetch (base @ posts_endpoint urlencode params) = Resolved r \<and> ok r
          \<and> json r = Inl e \<longrightarrow>
        server_getPosts base urlencode fetch params = empty_listing)
   \<and> (\<forall>r. fetch (base @ posts_endpoint urlencode params) = Resolved r \<and> ok r
          \<and> json r = Inr [] \<longrightarrow>
        server_getPosts base urlencode fetch params =
          \<lparr>posts = [],
           listing_totalPages =
             parseInt (or_default (headers_get r (js ''X-WP-TotalPages'')) (js ''1'')),
           listing_total =
             parseInt (or_default (headers_get r (js ''X-WP-Total'')) (js ''0''))\<rparr>)
   \<and> (\<forall>r. fetch (base @ posts_endpoint urlencode params) = Resolved r \<and> ok r
          \<and> json r = Inr [] \<and> headers_get r (js ''X-WP-TotalPages'') = None
          \<and> headers_get r (js ''X-WP-Total'') = None \<longrightarrow>
        server_getPosts base urlencode fetch params = empty_listing)"
  by (simp add: server_getPosts_def server_getPosts_try_def empty_listing_def
      or_default_def parseInt_1 parseInt_0)

theorem server_getPosts_failure_is_empty_listing_witness:
  "server_getPosts demo_base (\<lambda>s. s)
      (\<lambda>u. Rejected (JSError AbortErr (js ''The operation was aborted''))) no_params
     = \<lparr>posts = [], listing_totalPages = Num 1, listing_total = Num 0\<rparr>
   \<and> server_getPosts demo_base (\<lambda>s. s)
      (\<lambda>u. Resolved (demo_response 500 (js ''Internal Server Error'') (\<lambda>h. None) demo_site))
      no_params
     = \<lparr>posts = [], listing_totalPages = Num 1, listing_total = Num 0\<rparr>
   \<and> server_getPosts demo_base (\<lambda>s. s)
      (\<lambda>u. Resolved \<lparr>status = 200, statusText = js ''OK'', headers_get = (\<lambda>h. None),
                      json = Inl (JSError SyntaxErr (js ''Unexpected token <''))\<rparr>)
      no_params
     = \<lparr>posts = [], listing_totalPages = Num 1, listing_total = Num 0\<rparr>
   \<and> server_getPosts demo_base (\<lambda>s. s)
      (\<lambda>u. Resolved (demo_response 200 (js ''OK'') (\<lambda>h. None) [])) no_params
     = \<lparr>posts = [], listing_totalPages = Num 1, listing_total = Num 0\<rparr>
   \<and> server_getPosts demo_base (\<lambda>s. s)
      (\<lambda>u. Resolved (demo_response 200 (js ''OK'') demo_zero_headers [])) no_params
     = \<lparr>posts = [], listing_totalPages = Num 0, listing_total = Num 0\<rparr>"
proof -
  let ?f1 = "\<lambda>u::jsstring. Rejected (JSError AbortErr (js ''The operation was aborted''))
               :: WordPressPost list fetch_result"
  let ?r2 = "demo_response 500 (js ''Internal Server Error'') (\<lambda>h. None) demo_site"
  let ?r3 = "\<lparr>status = 200, statusText = js ''OK'', headers_get = (\<lambda>h. None),
              json = Inl (JSError SyntaxErr (js ''Unexpected token <''))\<rparr>
               :: WordPressPost list response"
  let ?r4 = "demo_response 200 (js ''OK'') (\<lambda>h. None) ([] :: WordPressPost list)"
  let ?r5 = "demo_response 200 (js ''OK'') demo_zero_headers ([] :: WordPressPost list)"
  have 1: "server_getPosts demo_base (\<lambda>s. s) ?f1 no_params = empty_listing"
    using server_getPosts_failure_is_empty_listing [of ?f1 demo_base "\<lambda>s. s" no_params]
    by simp
  have 2: "server_getPosts demo_base (\<lambda>s. s) (\<lambda>u. Resolved ?r2) no_params = empty_listing"
    using server_getPosts_failure_is_empty_listing [of "\<lambda>u. Resolved ?r2" demo_base "\<lambda>s. s" no_params]
    by (simp add: ok_def demo_response_def)
  have 3: "server_getPosts demo_base (\<lambda>s. s) (\<lambda>u. Resolved ?r3) no_params = empty_listing"
    using server_getPosts_failure_is_empty_listing [of "\<lambda>u. Resolved ?r3" demo_base "\<lambda>s. s" no_params]
    by (simp add: ok_def)
  have 4: "server_getPosts demo_base (\<lambda>s. s) (\<lambda>u. Resolved ?r4) no_params = empty_listing"
    using server_getPosts_failure_is_empty_listing [of "\<lambda>u. Resolved ?r4" demo_base "\<lambda>s. s" no_params,
        THEN conjunct2, THEN conjunct2, THEN conjunct2, THEN conjunct2]
    by (simp add: ok_def demo_response_def)
  have z: "or_default (Some (js ''0'')) (js ''1'') = js ''0''"
      "or_default (Some (js ''0'')) (js ''0'') = js ''0''"
    by (simp_all add: or_default_def js_def)
  have 5: "server_getPosts demo_base (\<lambda>s. s) (\<lambda>u. Resolved ?r5) no_params
             = \<lparr>posts = [], listing_totalPages = Num 0, listing_total = Num 0\<rparr>"
    using server_getPosts_failure_is_empty_listing [of "\<lambda>u. Resolved ?r5" demo_base "\<lambda>s. s" no_params,
        THEN conjunct2, THEN conjunct2, THEN conjunct2, THEN conjunct1]
    by (simp add: ok_def demo_response_def demo_zero_headers_def z parseInt_0)
  from 1 2 3 4 5 show ?thesis by (simp add: empty_listing_def)
qed

section \<open>Token expiry\<close>








lemma double_less_irrefl: "\<not> double_less x x"
  by (cases x) simp_all

text \<open>
  An expiry that is the very double the division gives is not earlier than it, however
  the exact quotient compares.
\<close>

lemma expiry_equal_to_rounded_now:
  assumes "truthy (decodeToken P tok)"
    and "exp_of (decodeToken P tok) = Some (JNumber (divide P (Finite (of_int now_ms)) (Finite 1000)))"
  shows "isTokenExpired P tok now_ms = Inr False"
  using assms by (simp add: isTokenExpired_def Let_def js_less_def double_less_irrefl)




section \<open>Login\<close>

lemma or_default_nonempty: "d \<noteq> [] \<Longrightarrow> or_default a d \<noteq> []"
  by (simp add: or_default_def split: option.splits)

lemma makeRequest_ok:
  assumes "fetch req = Resolved r" and "ok r" and "json r = Inr d"
  shows "makeRequest fetch req = (Inr d, [req])"
  using assms by (simp add: makeRequest_def makeRequest_try_def)

lemma makeRequest_refused:
  assumes "fetch req = Resolved r" and "\<not> ok r"
  shows "\<exists>m c s. makeRequest fetch req = (Inl (AuthAPIError m c s), [req]) \<and> m \<noteq> []"
proof (cases "json r")
  case (Inl e)
  then show ?thesis
    using assms by (cases "is_TypeError (Raised e)")
      (simp_all add: makeRequest_def makeRequest_try_def js_def)
next
  case (Inr d)
  have "or_default (body_message d) (js ''Authentication request failed'') \<noteq> []"
    by (rule or_default_nonempty) (simp add: js_def)
  then show ?thesis
    using assms Inr by (simp add: makeRequest_def makeRequest_try_def)
qed

lemma makeRequest_failure_shape:
  "fst (makeRequest fetch req) = Inl e \<Longrightarrow> \<exists>m c s. e = AuthAPIError m c s \<and> m \<noteq> []"
proof -
  assume a: "fst (makeRequest fetch req) = Inl e"
  show ?thesis
  proof (cases "makeRequest_try fetch req")
    case (Inr d)
    with a show ?thesis by (simp add: makeRequest_def)
  next
    case (Inl t)
    show ?thesis
    proof (cases t)
      case (Raised x)
      with a Inl show ?thesis
        by (cases "is_TypeError (Raised x)") (auto simp: makeRequest_def js_def)
    next
      case (AuthAPIError m c s)
      with Inl have ex: "\<exists>a. m = or_default a (js ''Authentication request failed'')"
        by (fastforce simp: makeRequest_try_def split: fetch_result.splits sum.splits if_splits)
      have ne0: "js ''Authentication request failed'' \<noteq> []" by (simp add: js_def)
      have "m \<noteq> []" using ex or_default_nonempty [OF ne0] by auto
      with a Inl AuthAPIError show ?thesis by (auto simp: makeRequest_def)
    qed
  qed
qed

lemma roles_transformUser:
  "transformUser now (Some wu) = Inr u \<Longrightarrow>
     roles u = (case wp_roles wu of None \<Rightarrow> [] | Some rs \<Rightarrow> rs)
     \<and> capabilities u = (case wp_capabilities wu of None \<Rightarrow> (\<lambda>c. None) | Some cs \<Rightarrow> cs)"
  by (auto simp: transformUser_def)

lemma storeToken_written:
  "\<forall>m k v. \<exists>m'. put m k v = Inr m' \<Longrightarrow> fst (storeToken put tok rt ls) = None"
proof -
  assume a: "\<forall>m k v. \<exists>m'. put m k v = Inr m'"
  show ?thesis
  proof (cases ls)
    case None
    then show ?thesis by (simp add: storeToken_def)
  next
    case (Some m)
    obtain m1 where m1: "put m (js ''auth_token'') (template tok) = Inr m1" using a by blast
    obtain m2 where m2: "put m1 (js ''refresh_token'') (template rt) = Inr m2" using a by blast
    show ?thesis by (simp add: storeToken_def Some m1 m2)
  qed
qed

lemma storeUser_written:
  "\<forall>m k v. \<exists>m'. put m k v = Inr m' \<Longrightarrow> fst (storeUser put str u ls) = None"
proof -
  assume a: "\<forall>m k v. \<exists>m'. put m k v = Inr m'"
  show ?thesis
  proof (cases ls)
    case None
    then show ?thesis by (simp add: storeUser_def)
  next
    case (Some m)
    obtain m1 where m1: "put m (js ''user_data'') (str u) = Inr m1" using a by blast
    show ?thesis by (simp add: storeUser_def Some m1)
  qed
qed

text \<open>
  What \<open>login\<close> does with the answers of the two endpoints when the storage takes the
  writes: the user it stores is built from the fields of the \<open>data\<close> object itself.
\<close>

lemma login_outcomes:
  "(\<forall>r1 b1 r2 b2 wu.
       env_fetch E (token_request (JWT_AUTH_ENDPOINT E) credentials) = Resolved r1 \<and> ok r1
       \<and> json r1 = Inr b1
       \<and> env_fetch E (validate_request (JWT_AUTH_ENDPOINT E) (body_token b1)) = Resolved r2
       \<and> ok r2 \<and> json r2 = Inr b2 \<and> body_data b2 = Some wu
       \<and> (\<forall>m k v. \<exists>m'. setItem E m k v = Inr m')
     \<longrightarrow> fst (login E credentials w) = None
         \<and> isAuthenticated (auth_state (snd (login E credentials w)))
         \<and> token (auth_state (snd (login E credentials w))) = body_token b1
         \<and> auth_error (auth_state (snd (login E credentials w))) = None
         \<and> (\<exists>u. user (auth_state (snd (login E credentials w))) = Some u
                \<and> roles u = (case wp_roles wu of None \<Rightarrow> [] | Some rs \<Rightarrow> rs)
                \<and> capabilities u =
                    (case wp_capabilities wu of None \<Rightarrow> (\<lambda>c. None) | Some cs \<Rightarrow> cs)))
   \<and> (\<forall>r1.
       env_fetch E (token_request (JWT_AUTH_ENDPOINT E) credentials) = Resolved r1 \<and> \<not> ok r1
     \<longrightarrow> fst (login E credentials w) \<noteq> None
         \<and> user (auth_state (snd (login E credentials w))) = None
         \<and> token (auth_state (snd (login E credentials w))) = None
         \<and> \<not> isAuthenticated (auth_state (snd (login E credentials w)))
         \<and> (\<exists>m. auth_error (auth_state (snd (login E credentials w))) = Some m \<and> m \<noteq> []))"
proof (intro conjI allI impI)
  fix r1 b1 r2 b2 wu
  assume a: "env_fetch E (token_request (JWT_AUTH_ENDPOINT E) credentials) = Resolved r1 \<and> ok r1
       \<and> json r1 = Inr b1
       \<and> env_fetch E (validate_request (JWT_AUTH_ENDPOINT E) (body_token b1)) = Resolved r2
       \<and> ok r2 \<and> json r2 = Inr b2 \<and> body_data b2 = Some wu
       \<and> (\<forall>m k v. \<exists>m'. setItem E m k v = Inr m')"
  let ?t = "token_request (JWT_AUTH_ENDPOINT E) credentials"
  let ?v = "validate_request (JWT_AUTH_ENDPOINT E) (body_token b1)"
  have m1: "makeRequest (env_fetch E) ?t = (Inr b1, [?t])"
    using a by (intro makeRequest_ok) auto
  have m2: "makeRequest (env_fetch E) ?v = (Inr b2, [?v])"
    using a by (intro makeRequest_ok) auto
  obtain u where u: "transformUser (now_iso E) (Some wu) = Inr u"
    by (simp add: transformUser_def)
  have api: "authAPI_login (JWT_AUTH_ENDPOINT E) (env_fetch E) (now_iso E) credentials =
          (Inr \<lparr>res_token = body_token b1, res_user = u,
                res_refreshToken = body_refresh_token b1,
                expiresIn = or_number (body_expires_in b1) 3600\<rparr>, [?t, ?v])"
    using a u by (simp add: authAPI_login_def m1 m2)
  note ru = roles_transformUser [OF u]
  from a have wr: "\<forall>m k v. \<exists>m'. setItem E m k v = Inr m'" by blast
  obtain ls1 where st: "storeToken (setItem E) (body_token b1) (body_refresh_token b1)
        (localStorage w) = (None, ls1)"
    using storeToken_written [OF wr, of "body_token b1" "body_refresh_token b1" "localStorage w"]
    by (cases "storeToken (setItem E) (body_token b1) (body_refresh_token b1)
        (localStorage w)") auto
  obtain ls2 where su: "storeUser (setItem E) (stringify E) u ls1 = (None, ls2)"
    using storeUser_written [OF wr, of "stringify E" u ls1]
    by (cases "storeUser (setItem E) (stringify E) u ls1") auto
  show "fst (login E credentials w) = None"
    by (simp add: login_def api st su Let_def dispatch_def)
  show "isAuthenticated (auth_state (snd (login E credentials w)))"
    by (simp add: login_def api st su Let_def dispatch_def)
  show "token (auth_state (snd (login E credentials w))) = body_token b1"
    by (simp add: login_def api st su Let_def dispatch_def)
  show "auth_error (auth_state (snd (login E credentials w))) = None"
    by (simp add: login_def api st su Let_def dispatch_def)
  have "user (auth_state (snd (login E credentials w))) = Some u"
    by (simp add: login_def api st su Let_def dispatch_def)
  with ru show "\<exists>u. user (auth_state (snd (login E credentials w))) = Some u
                \<and> roles u = (case wp_roles wu of None \<Rightarrow> [] | Some rs \<Rightarrow> rs)
                \<and> capabilities u =
                    (case wp_capabilities wu of None \<Rightarrow> (\<lambda>c. None) | Some cs \<Rightarrow> cs)"
    by blast
next
  fix r1
  assume a: "env_fetch E (token_request (JWT_AUTH_ENDPOINT E) credentials) = Resolved r1 \<and> \<not> ok r1"
  let ?t = "token_request (JWT_AUTH_ENDPOINT E) credentials"
  from a obtain m c s where m: "makeRequest (env_fetch E) ?t = (Inl (AuthAPIError m c s), [?t])"
    and ne: "m \<noteq> []"
    using makeRequest_refused [of "env_fetch E" ?t r1] by blast
  have api: "authAPI_login (JWT_AUTH_ENDPOINT E) (env_fetch E) (now_iso E) credentials =
          (Inl (AuthAPIError m c s), [?t])"
    by (simp add: authAPI_login_def m)
  show "fst (login E credentials w) \<noteq> None"
    by (simp add: login_def login_catch_def api Let_def)
  show "user (auth_state (snd (login E credentials w))) = None"
    by (simp add: login_def login_catch_def api Let_def dispatch_def)
  show "token (auth_state (snd (login E credentials w))) = None"
    by (simp add: login_def login_catch_def api Let_def dispatch_def)
  show "\<not> isAuthenticated (auth_state (snd (login E credentials w)))"
    by (simp add: login_def login_catch_def api Let_def dispatch_def)
  show "\<exists>m. auth_error (auth_state (snd (login E credentials w))) = Some m \<and> m \<noteq> []"
    using ne by (simp add: login_def login_catch_def api Let_def dispatch_def)
qed

text \<open>
  A storage that refuses the first write turns a login the server accepted into a failed
  one, with the message of the \<open>catch\<close> clause.
\<close>

lemma login_storage_refuses:
  assumes "authAPI_login (JWT_AUTH_ENDPOINT E) (env_fetch E) (now_iso E) credentials
             = (Inr authResponse, l)"
    and "localStorage w = Some m"
    and "setItem E m (js ''auth_token'') (template (res_token authResponse)) = Inl e"
  shows "fst (login E credentials w) = Some (Raised e)
         \<and> \<not> isAuthenticated (auth_state (snd (login E credentials w)))
         \<and> auth_error (auth_state (snd (login E credentials w)))
             = Some (js ''Login failed. Please try again.'')
         \<and> localStorage (snd (login E credentials w)) = Some m"
  using assms
  by (simp add: login_def login_catch_def storeToken_def Let_def dispatch_def)

lemma demo_token_answer:
  "env_fetch demo_env (token_request (JWT_AUTH_ENDPOINT demo_env)
       \<lparr>cred_username = js ''testuser'', cred_password = js ''password''\<rparr>)
     = Resolved (demo_response 200 (js ''OK'') (\<lambda>h. None)
         (empty_body\<lparr>body_token := Some (js ''mock-jwt-token'')\<rparr>))"
  by (simp add: demo_env_def demo_auth_server_def token_request_def)

lemma demo_validate_answer:
  "env_fetch demo_env (validate_request (JWT_AUTH_ENDPOINT demo_env) (Some (js ''mock-jwt-token'')))
     = Resolved (demo_response 200 (js ''OK'') (\<lambda>h. None)
         (empty_body\<lparr>body_code := Some (js ''jwt_auth_valid_token''),
                      body_data := Some mock_validate_data\<rparr>))"
  by (simp add: demo_env_def demo_auth_server_def validate_request_def template_def js_def)

lemma demo_token_refusal:
  "env_fetch demo_env (token_request (JWT_AUTH_ENDPOINT demo_env)
       \<lparr>cred_username = js ''testuser'', cred_password = js ''wrongpassword''\<rparr>)
     = Resolved unauthorized"
  by (simp add: demo_env_def demo_auth_server_def token_request_def js_def)

lemma demo_authAPI_login:
  "fst (authAPI_login (JWT_AUTH_ENDPOINT demo_env) (env_fetch demo_env) (now_iso demo_env)
         \<lparr>cred_username = js ''testuser'', cred_password = js ''password''\<rparr>)
     = Inr \<lparr>res_token = Some (js ''mock-jwt-token''),
             res_user = \<lparr>user_id = None, username = None, email = None, firstName = [],
                          lastName = [], displayName = None, roles = [],
                          capabilities = (\<lambda>c. None), avatar = [], description = [], url = [],
                          registeredDate = js ''2025-08-01T10:00:00.000Z'', user_meta = []\<rparr>,
             res_refreshToken = None, expiresIn = 3600\<rparr>"
proof -
  let ?b1 = "empty_body\<lparr>body_token := Some (js ''mock-jwt-token'')\<rparr>"
  have tok: "body_token ?b1 = Some (js ''mock-jwt-token'')" by simp
  have m1: "makeRequest (env_fetch demo_env) (token_request (JWT_AUTH_ENDPOINT demo_env)
       \<lparr>cred_username = js ''testuser'', cred_password = js ''password''\<rparr>)
     = (Inr ?b1, [token_request (JWT_AUTH_ENDPOINT demo_env)
       \<lparr>cred_username = js ''testuser'', cred_password = js ''password''\<rparr>])"
    by (rule makeRequest_ok [where fetch = "env_fetch demo_env", OF demo_token_answer])
       (simp_all add: demo_response_def ok_def)
  have m2: "makeRequest (env_fetch demo_env)
       (validate_request (JWT_AUTH_ENDPOINT demo_env) (Some (js ''mock-jwt-token'')))
     = (Inr (empty_body\<lparr>body_code := Some (js ''jwt_auth_valid_token''),
                      body_data := Some mock_validate_data\<rparr>),
        [validate_request (JWT_AUTH_ENDPOINT demo_env) (Some (js ''mock-jwt-token''))])"
    by (rule makeRequest_ok [where fetch = "env_fetch demo_env", OF demo_validate_answer])
       (simp_all add: demo_response_def ok_def)
  have now: "now_iso demo_env = js ''2025-08-01T10:00:00.000Z''" by (simp add: demo_env_def)
  show ?thesis
    by (simp add: authAPI_login_def m1 tok m2 now)
       (simp add: transformUser_def mock_validate_data_def empty_body_def or_string_def
          truthy_string_def or_default_def or_number_def)
qed

text \<open>
  C6. A login with valid credentials is to leave the session authenticated with the
  user's roles and capabilities taken from the server payload. The session does become
  authenticated, but \<open>login\<close> builds the user from the \<open>data\<close> object of the
  validation answer, while the answer carries the user under \<open>data.user\<close>: against
  the repository's mock endpoints, whose payload names the user \<open>testuser\<close> with id 1
  and the role \<open>subscriber\<close>, the stored user has no id, no name and no role. The
  repository's test of \<open>login\<close> expects the id and the name.
\<close>

theorem login_ignores_user_of_payload:
  "fst (login demo_env \<lparr>cred_username = js ''testuser'', cred_password = js ''password''\<rparr>
          demo_world) = None
   \<and> isAuthenticated (auth_state (snd (login demo_env
        \<lparr>cred_username = js ''testuser'', cred_password = js ''password''\<rparr> demo_world)))
   \<and> token (auth_state (snd (login demo_env
        \<lparr>cred_username = js ''testuser'', cred_password = js ''password''\<rparr> demo_world)))
       = Some (js ''mock-jwt-token'')
   \<and> map_option wp_roles (data_user mock_validate_data) = Some (Some [js ''subscriber''])
   \<and> map_option wp_id (data_user mock_validate_data) = Some (Some 1)
   \<and> map_option roles (user (auth_state (snd (login demo_env
        \<lparr>cred_username = js ''testuser'', cred_password = js ''password''\<rparr> demo_world))))
       = Some []
   \<and> map_option user_id (user (auth_state (snd (login demo_env
        \<lparr>cred_username = js ''testuser'', cred_password = js ''password''\<rparr> demo_world))))
       = Some None
   \<and> map_option username (user (auth_state (snd (login demo_env
        \<lparr>cred_username = js ''testuser'', cred_password = js ''password''\<rparr> demo_world))))
       = Some None"
proof -
  let ?good = "\<lparr>cred_username = js ''testuser'', cred_password = js ''password''\<rparr>"
  obtain l where api: "authAPI_login (JWT_AUTH_ENDPOINT demo_env) (env_fetch demo_env)
        (now_iso demo_env) ?good
      = (Inr \<lparr>res_token = Some (js ''mock-jwt-token''),
             res_user = \<lparr>user_id = None, username = None, email = None, firstName = [],
                          lastName = [], displayName = None, roles = [],
                          capabilities = (\<lambda>c. None), avatar = [], description = [], url = [],
                          registeredDate = js ''2025-08-01T10:00:00.000Z'', user_meta = []\<rparr>,
             res_refreshToken = None, expiresIn = 3600\<rparr>, l)"
    using demo_authAPI_login
    by (cases "authAPI_login (JWT_AUTH_ENDPOINT demo_env) (env_fetch demo_env)
        (now_iso demo_env) ?good") auto
  have payload: "map_option wp_roles (data_user mock_validate_data) = Some (Some [js ''subscriber''])"
      "map_option wp_id (data_user mock_validate_data) = Some (Some 1)"
    by (simp_all add: mock_validate_data_def mock_user_def)
  have wr: "setItem demo_env = (\<lambda>m k v. Inr (m(k \<mapsto> v)))" by (simp add: demo_env_def)
  show ?thesis
    by (simp add: login_def api wr storeToken_def storeUser_def truthy_string_def Let_def
          dispatch_def payload split: option.splits)
qed

text \<open>
  The other half of C6 holds on the same endpoints: a wrong password leaves the session
  anonymous with a message, here the fallback for an answer without a body.
\<close>

lemma login_refused_on_mock:
  "user (auth_state (snd (login demo_env
        \<lparr>cred_username = js ''testuser'', cred_password = js ''wrongpassword''\<rparr> demo_world)))
       = None
   \<and> \<not> isAuthenticated (auth_state (snd (login demo_env
        \<lparr>cred_username = js ''testuser'', cred_password = js ''wrongpassword''\<rparr> demo_world)))
   \<and> (\<exists>m. auth_error (auth_state (snd (login demo_env
        \<lparr>cred_username = js ''testuser'', cred_password = js ''wrongpassword''\<rparr> demo_world)))
          = Some m \<and> m \<noteq> [])"
proof -
  have bad: "env_fetch demo_env (token_request (JWT_AUTH_ENDPOINT demo_env)
       \<lparr>cred_username = js ''testuser'', cred_password = js ''wrongpassword''\<rparr>)
     = Resolved unauthorized \<and> \<not> ok unauthorized"
    using demo_token_refusal by (simp add: ok_def unauthorized_def)
  note i = login_outcomes [of demo_env
      "\<lparr>cred_username = js ''testuser'', cred_password = js ''wrongpassword''\<rparr>" demo_world,
      THEN conjunct2, rule_format, of unauthorized, OF bad]
  then show ?thesis by blast
qed

section \<open>A failed refresh\<close>

lemma refresh_url_differs:
  "req_url (validate_request J tok) \<noteq> J @ js ''/token/refresh''"
  by (simp add: validate_request_def js_def)

lemma refresh_url_same: "req_url (refresh_request J rt) = J @ js ''/token/refresh''"
  by (simp add: refresh_request_def)

lemma authAPI_refreshToken_requests:
  "snd (authAPI_refreshToken J fetch now rt) = [refresh_request J rt]
   \<or> (\<exists>tok. snd (authAPI_refreshToken J fetch now rt) = [refresh_request J rt, validate_request J tok])"
  by (auto simp: authAPI_refreshToken_def validateToken_def makeRequest_def
      split: prod.splits sum.splits if_splits)

lemma authAPI_refreshToken_one_refresh:
  "length (filter (is_refresh_request E)
      (snd (authAPI_refreshToken (JWT_AUTH_ENDPOINT E) fetch now rt))) = 1"
  using authAPI_refreshToken_requests [of "JWT_AUTH_ENDPOINT E" fetch now rt]
  by (auto simp: is_refresh_request_def refresh_url_same refresh_url_differs)

lemma logout_state: "auth_state (logout w) = initialState"
  by (simp add: logout_def dispatch_def)

lemma logout_storage: "storage_cleared (localStorage (logout w))"
  by (simp add: logout_def dispatch_def authAPI_logout_def storage_cleared_def js_def
      split: option.splits)

lemma logout_requests: "requests (logout w) = requests w"
  by (simp add: logout_def dispatch_def)

lemma no_timer_when_anonymous: "autoRefreshTimer P initialState now_ms = None"
  by (simp add: autoRefreshTimer_def initialState_def truthy_string_def)

text \<open>
  C7. When no refresh token is stored, or the refresh fails (the refresh request or the
  validation that follows it throws), \<open>refreshAuth\<close> logs out: the session is the
  initial, anonymous state, the stored token, refresh token and user are removed, at
  most one request went to the refresh endpoint, and in the resulting state the effect
  that schedules the proactive refresh sets no timer.
\<close>

theorem refreshAuth_failure_forces_logout:
  assumes "\<not> truthy_string (getStoredRefreshToken (localStorage w))
           \<or> (\<exists>e. fst (authAPI_refreshToken (JWT_AUTH_ENDPOINT E) (env_fetch E) (now_iso E)
                        (template (getStoredRefreshToken (localStorage w)))) = Inl e)"
  shows "auth_state (refreshAuth E w) = initialState
       \<and> storage_cleared (localStorage (refreshAuth E w))
       \<and> refresh_attempts E (refreshAuth E w) \<le> refresh_attempts E w + 1
       \<and> autoRefreshTimer P (auth_state (refreshAuth E w)) now_ms = None"
proof (cases "truthy_string (getStoredRefreshToken (localStorage w))")
  case False
  then have "refreshAuth E w = logout w" by (simp add: refreshAuth_def Let_def)
  then show ?thesis
    by (simp add: logout_state logout_storage logout_requests no_timer_when_anonymous
        refresh_attempts_def)
next
  case True
  let ?rt = "template (getStoredRefreshToken (localStorage w))"
  let ?out = "authAPI_refreshToken (JWT_AUTH_ENDPOINT E) (env_fetch E) (now_iso E) ?rt"
  from True assms obtain e where e: "fst ?out = Inl e" by blast
  then obtain l where out: "?out = (Inl e, l)" by (cases ?out) auto
  have r: "refreshAuth E w = logout (w\<lparr>requests := requests w @ l\<rparr>)"
    using True by (simp add: refreshAuth_def Let_def out)
  have "length (filter (is_refresh_request E) l) = 1"
    using authAPI_refreshToken_one_refresh [of E "env_fetch E" "now_iso E" ?rt]
    by (simp add: out)
  then have "refresh_attempts E (refreshAuth E w) = refresh_attempts E w + 1"
    by (simp add: r logout_requests refresh_attempts_def)
  then show ?thesis
    by (simp add: r logout_state logout_storage no_timer_when_anonymous)
qed

lemma stale_stored_token:
  "getStoredRefreshToken (localStorage stale_world) = Some (js ''old-refresh'')"
  by (simp add: getStoredRefreshToken_def stale_world_def js_def)

lemma stale_refresh_refused:
  "fst (authAPI_refreshToken (JWT_AUTH_ENDPOINT demo_env) (env_fetch demo_env) (now_iso demo_env)
          (js ''old-refresh''))
     = Inl (AuthAPIError (js ''Refresh token expired'') (js ''AUTH_ERROR'') 401)"
  by (simp add: authAPI_refreshToken_def makeRequest_def makeRequest_try_def demo_env_def
      demo_auth_server_def refresh_request_def demo_response_def empty_body_def ok_def
      or_default_def js_def)

theorem refreshAuth_failure_forces_logout_witness:
  "truthy_string (getStoredRefreshToken (localStorage stale_world))
   \<and> fst (authAPI_refreshToken (JWT_AUTH_ENDPOINT demo_env) (env_fetch demo_env) (now_iso demo_env)
          (template (getStoredRefreshToken (localStorage stale_world))))
       = Inl (AuthAPIError (js ''Refresh token expired'') (js ''AUTH_ERROR'') 401)
   \<and> isAuthenticated (auth_state stale_world)
   \<and> auth_state (refreshAuth demo_env stale_world) = initialState
   \<and> storage_cleared (localStorage (refreshAuth demo_env stale_world))
   \<and> refresh_attempts demo_env (refreshAuth demo_env stale_world) \<le> 1
   \<and> autoRefreshTimer demo_platform (auth_state (refreshAuth demo_env stale_world)) 0 = None
   \<and> \<not> truthy_string (getStoredRefreshToken (localStorage demo_world))
   \<and> auth_state (refreshAuth demo_env demo_world) = initialState
   \<and> refresh_attempts demo_env (refreshAuth demo_env demo_world) = 0"
proof -
  have t: "truthy_string (getStoredRefreshToken (localStorage stale_world))"
    by (simp add: stale_stored_token truthy_string_def js_def)
  have f: "fst (authAPI_refreshToken (JWT_AUTH_ENDPOINT demo_env) (env_fetch demo_env)
               (now_iso demo_env) (template (getStoredRefreshToken (localStorage stale_world))))
       = Inl (AuthAPIError (js ''Refresh token expired'') (js ''AUTH_ERROR'') 401)"
    using stale_refresh_refused by (simp add: stale_stored_token template_def)
  have a: "isAuthenticated (auth_state stale_world)" by (simp add: stale_world_def)
  have h1: "\<not> truthy_string (getStoredRefreshToken (localStorage stale_world))
           \<or> (\<exists>e. fst (authAPI_refreshToken (JWT_AUTH_ENDPOINT demo_env) (env_fetch demo_env)
                        (now_iso demo_env)
                        (template (getStoredRefreshToken (localStorage stale_world)))) = Inl e)"
    using f by blast
  have n: "\<not> truthy_string (getStoredRefreshToken (localStorage demo_world))"
    by (simp add: getStoredRefreshToken_def demo_world_def truthy_string_def)
  then have h2: "\<not> truthy_string (getStoredRefreshToken (localStorage demo_world))
           \<or> (\<exists>e. fst (authAPI_refreshToken (JWT_AUTH_ENDPOINT demo_env) (env_fetch demo_env)
                        (now_iso demo_env)
                        (template (getStoredRefreshToken (localStorage demo_world)))) = Inl e)"
    by blast
  note s = refreshAuth_failure_forces_logout [of stale_world demo_env demo_platform 0, OF h1]
  note d = refreshAuth_failure_forces_logout [of demo_world demo_env demo_platform 0, OF h2]
  have s0: "refresh_attempts demo_env stale_world = 0"
    by (simp add: refresh_attempts_def stale_world_def)
  have d0: "refresh_attempts demo_env (refreshAuth demo_env demo_world) = 0"
    using n by (simp add: refreshAuth_def Let_def logout_requests refresh_attempts_def demo_world_def)
  have 1: "auth_state (refreshAuth demo_env stale_world) = initialState" using s by blast
  have 2: "storage_cleared (localStorage (refreshAuth demo_env stale_world))" using s by blast
  have 3: "refresh_attempts demo_env (refreshAuth demo_env stale_world) \<le> 1" using s s0 by simp
  have 4: "autoRefreshTimer demo_platform (auth_state (refreshAuth demo_env stale_world)) 0 = None"
    using s by blast
  have 5: "auth_state (refreshAuth demo_env demo_world) = initialState" using d by blast
  from t f a 1 2 3 4 n 5 d0 show ?thesis by (intro conjI)
qed

end
